theory Spec2Isabelle
  imports Complex_Main "HOL-Library.Char_ord" "HOL-Library.List_Lexorder"
begin

section \<open>Data model\<close>

text \<open>
  The trading core of cryptotrader works on Python floats, strings, dictionaries and
  naive datetimes. Amounts, prices, fees and limits are modelled as exact reals (the
  idealisation of a float), a dictionary as a partial map, a datetime as an integer
  number of microseconds, and every exception as a value of \<open>error\<close>.
\<close>

datatype error =
    AssertionError
  | AttributeError
  | KeyError
  | TypeError
  | ValueError
  | IndexError
  | ZeroDivisionError
  | QueueEmpty
  | FetchPairError
  | NoSuchExchangeError string
  | SessionError string

subsection \<open>const.py\<close>

definition MAX_SUM :: real where "MAX_SUM = 10 ^ 32"

definition ASK :: string where "ASK = ''ask''"
definition BID :: string where "BID = ''bid''"
definition BUY :: string where "BUY = ''buy''"
definition SELL :: string where "SELL = ''sell''"
definition MARKET :: string where "MARKET = ''market''"
definition LIMIT :: string where "LIMIT = ''limit''"
definition ORDER_TYPES :: "string list" where "ORDER_TYPES = [MARKET, LIMIT]"
definition CREATED :: string where "CREATED = ''created''"
definition PLACED :: string where "PLACED = ''placed''"
definition REJECTED :: string where "REJECTED = ''rejected''"
definition CANCELLED :: string where "CANCELLED = ''cancelled''"
definition FULFILLED :: string where "FULFILLED = ''fulfilled''"
definition DEFAULT_PAIR :: string where "DEFAULT_PAIR = ''DEFAULT''"

text \<open>\<open>ORDER_SIDE_FACTOR_MAP\<close> with \<open>get_factor = ORDER_SIDE_FACTOR_MAP.get\<close>.\<close>

definition get_factor :: "string \<Rightarrow> real option" where
  "get_factor side = (if side = BUY then Some (- 1) else if side = SELL then Some 1 else None)"

text \<open>\<open>OFFER_ORDER_SIDES_MAP[k]\<close> and \<open>ORDER_OFFER_SIDES_MAP[k]\<close>: a missing key raises.\<close>

definition OFFER_ORDER_SIDES_MAP :: "string \<Rightarrow> error + string" where
  "OFFER_ORDER_SIDES_MAP k =
     (if k = ASK then Inr BUY else if k = BID then Inr SELL else Inl KeyError)"

definition ORDER_OFFER_SIDES_MAP :: "string \<Rightarrow> error + string" where
  "ORDER_OFFER_SIDES_MAP k =
     (if k = BUY then Inr ASK else if k = SELL then Inr BID else Inl KeyError)"

subsection \<open>common.py and builtins\<close>

text \<open>\<open>math.floor(value * base) / base\<close> with \<open>base = 10 ** precision\<close>.\<close>

definition floor_with_precision :: "real \<Rightarrow> nat \<Rightarrow> real" where
  "floor_with_precision v precision =
     (let b = 10 ^ precision in of_int \<lfloor>v * b\<rfloor> / b)"

text \<open>
  The builtin \<open>round(x, ndigits)\<close>: the nearest multiple of \<open>10 ** -ndigits\<close>, a tie
  going to the even neighbour.
\<close>

definition round_half_even :: "real \<Rightarrow> int" where
  "round_half_even x =
     (let f = \<lfloor>x\<rfloor>; d = x - of_int f
      in if d < 1 / 2 then f else if 1 / 2 < d then f + 1
         else if even f then f else f + 1)"

definition py_round :: "real \<Rightarrow> nat \<Rightarrow> real" where
  "py_round x ndigits = of_int (round_half_even (x * 10 ^ ndigits)) / 10 ^ ndigits"

text \<open>\<open>str.upper\<close> on the ASCII letters.\<close>

definition upper_char :: "char \<Rightarrow> char" where
  "upper_char c =
     (let n = (of_char c :: nat)
      in if 97 \<le> n \<and> n \<le> 122 then char_of (n - 32) else c)"

definition upper :: "string \<Rightarrow> string" where
  "upper s = map upper_char s"

subsection \<open>models/money.py\<close>

record Money =
  amount :: real
  currency :: string

text \<open>
  \<open>PairName._parse_raw_pair\<close>: the first three characters are the quote currency, the
  rest is the base currency, both upper-cased.
\<close>

record PairName =
  pn_quote :: string
  pn_base :: string

definition PairName_init :: "string \<Rightarrow> PairName" where
  "PairName_init p = \<lparr>pn_quote = upper (take 3 p), pn_base = upper (drop 3 p)\<rparr>"

definition to_common_format :: "PairName \<Rightarrow> string" where
  "to_common_format pn = pn_quote pn @ pn_base pn"

subsection \<open>typing.py\<close>

record SessionFetchedBalances =
  sfb_success :: bool
  sfb_balances :: "string \<rightharpoonup> real"
  sfb_response :: string

record PlacedOrder =
  success :: bool
  order_id :: "string option"
  order_status :: string
  response :: string

subsection \<open>exchange/base/exchange.py: the venue\<close>

text \<open>
  The fields of \<open>Exchange\<close> that the trading decisions read. \<open>limit\<close> is the global
  spending limit, \<open>pair_limits\<close> the minimum order quantity per pair.
\<close>

record Exchange =
  name :: string
  default_pairs :: "string list"
  fee :: real
  limit :: real
  pair_limits :: "string \<rightharpoonup> real"
  balances :: "string \<rightharpoonup> real"

definition get_balance :: "Exchange \<Rightarrow> string \<Rightarrow> real" where
  "get_balance ex cur = (case balances ex (upper cur) of None \<Rightarrow> 0 | Some b \<Rightarrow> b)"

definition get_pair_limit :: "Exchange \<Rightarrow> string \<Rightarrow> real" where
  "get_pair_limit ex p =
     (case pair_limits ex p of
        Some l \<Rightarrow> l
      | None \<Rightarrow> (case pair_limits ex DEFAULT_PAIR of Some l \<Rightarrow> l | None \<Rightarrow> 0))"

definition get_limit :: "Exchange \<Rightarrow> real" where
  "get_limit ex = limit ex"

text \<open>
  \<open>Exchange.fetch_balances\<close>. The session is an external adapter: its operation is a
  parameter that maps the session state to an answer (or an exception) and a new state.
  The debouncer around the body only delays the call.
\<close>

definition fetch_balances ::
  "('s \<Rightarrow> (error + SessionFetchedBalances) \<times> 's) \<Rightarrow> Exchange \<Rightarrow> 's
     \<Rightarrow> (error + unit) \<times> Exchange \<times> 's" where
  "fetch_balances session_fetch_balances ex s =
     (case session_fetch_balances s of
        (Inl e, s') \<Rightarrow> (Inl e, ex, s')
      | (Inr result, s') \<Rightarrow>
          (if \<not> sfb_success result then (Inr (), ex, s')
           else (Inr (), ex\<lparr>balances := sfb_balances result\<rparr>, s')))"

subsection \<open>models/offer.py\<close>

text \<open>
  An offer keeps a reference to its venue (or \<open>None\<close>); the functions below only read
  the venue, so the record holds the venue's state by value.
\<close>

record Offer =
  pair_name :: PairName
  base :: Money
  quote :: Money
  price_type :: string
  price :: real
  exchange :: "Exchange option"
  timestamp :: real

text \<open>
  \<open>Offer.__init__\<close>: the pair is parsed, and with a venue attached its common form
  has to be one of the venue's \<open>default_pairs\<close>.
\<close>

definition Offer_init ::
  "string \<Rightarrow> string \<Rightarrow> real \<Rightarrow> real \<Rightarrow> Exchange option \<Rightarrow> real \<Rightarrow> error + Offer" where
  "Offer_init pt p pr q ex ts =
     (let pn = PairName_init p
      in if (case ex of None \<Rightarrow> False
                      | Some e \<Rightarrow> to_common_format pn \<notin> set (default_pairs e))
         then Inl AssertionError
         else Inr \<lparr>pair_name = pn,
                   base = \<lparr>amount = py_round (q * pr) 5, currency = pn_base pn\<rparr>,
                   quote = \<lparr>amount = q, currency = pn_quote pn\<rparr>,
                   price_type = pt, price = pr, exchange = ex, timestamp = ts\<rparr>)"

definition Offer_pair :: "Offer \<Rightarrow> string" where
  "Offer_pair f = to_common_format (pair_name f)"

text \<open>\<open>Offer.total_price\<close>: the price with the venue's fee; it reads \<open>exchange.fee\<close>.\<close>

definition total_price :: "Offer \<Rightarrow> error + real" where
  "total_price f =
     (let k = (if price_type f = ASK then 1 else - 1)
      in case exchange f of
           None \<Rightarrow> Inl AttributeError
         | Some e \<Rightarrow> Inr (price f * (1 + k * fee e)))"

definition reversed_price_type :: "Offer \<Rightarrow> string" where
  "reversed_price_type f = (if price_type f = BID then ASK else BID)"

text \<open>
  \<open>Offer.clone(**kwargs)\<close>: a keyword that is absent or falsy (an empty string, the
  number zero) leaves the field of the cloned offer; \<open>quote\<close> is given as a float.
\<close>

record clone_kwargs =
  kw_price_type :: "string option"
  kw_pair :: "string option"
  kw_price :: "real option"
  kw_quote :: "real option"
  kw_exchange :: "Exchange option"
  kw_timestamp :: "real option"

definition no_kwargs :: clone_kwargs where
  "no_kwargs = \<lparr>kw_price_type = None, kw_pair = None, kw_price = None, kw_quote = None,
                 kw_exchange = None, kw_timestamp = None\<rparr>"

definition clone :: "Offer \<Rightarrow> clone_kwargs \<Rightarrow> error + Offer" where
  "clone f kw =
     Offer_init
       (case kw_price_type kw of None \<Rightarrow> price_type f
          | Some v \<Rightarrow> if v = [] then price_type f else v)
       (case kw_pair kw of None \<Rightarrow> Offer_pair f
          | Some v \<Rightarrow> if v = [] then Offer_pair f else v)
       (case kw_price kw of None \<Rightarrow> price f
          | Some v \<Rightarrow> if v = 0 then price f else v)
       (case kw_quote kw of None \<Rightarrow> amount (quote f)
          | Some v \<Rightarrow> if v = 0 then amount (quote f) else v)
       (case kw_exchange kw of None \<Rightarrow> exchange f | Some e \<Rightarrow> Some e)
       (case kw_timestamp kw of None \<Rightarrow> timestamp f
          | Some v \<Rightarrow> if v = 0 then timestamp f else v)"

definition Offer_reversed :: "Offer \<Rightarrow> error + Offer" where
  "Offer_reversed f = clone f (no_kwargs\<lparr>kw_price_type := Some (reversed_price_type f)\<rparr>)"

text \<open>
  \<open>Offer.refreshed\<close>. The argument \<open>fresh\<close> is the outcome of
  \<open>exchange.get_fresh_pair(pair)\<close>: the ticker of the pair, or the exception raised.
\<close>

definition refreshed :: "(error + (string \<rightharpoonup> real)) \<Rightarrow> Offer \<Rightarrow> error + Offer" where
  "refreshed fresh f =
     (case exchange f of
        None \<Rightarrow> Inl AttributeError
      | Some e \<Rightarrow>
          (case fresh of
             Inl err \<Rightarrow> Inl err
           | Inr pair_data \<Rightarrow>
               (case pair_data (price_type f) of
                  None \<Rightarrow> Inl KeyError
                | Some p \<Rightarrow>
                    (case pair_data ''time'' of
                       None \<Rightarrow> Inl KeyError
                     | Some t \<Rightarrow>
                         clone f (no_kwargs\<lparr>kw_price := Some p, kw_timestamp := Some t\<rparr>)))))"

subsection \<open>models/order.py\<close>

record Order =
  uuid :: "string option"
  id_on_exchange :: "string option"
  otype :: string
  offer :: Offer
  status :: string
  strategy :: string
  created_at :: int
  executed_at :: "int option"
  expired_at :: "int option"
  commission :: real

text \<open>
  \<open>Order.__init__\<close>; \<open>now\<close> is the value of \<open>datetime.utcnow()\<close>, taken when no
  \<open>created_at\<close> is given.
\<close>

definition Order_init ::
  "int \<Rightarrow> Offer \<Rightarrow> string \<Rightarrow> string \<Rightarrow> string \<Rightarrow> int option \<Rightarrow> int option \<Rightarrow> int option
     \<Rightarrow> real \<Rightarrow> string option \<Rightarrow> string option \<Rightarrow> error + Order" where
  "Order_init now off st strat ty cr_at exp_at exe_at comm ident uu =
     (if ty \<notin> set ORDER_TYPES then Inl AssertionError
      else Inr \<lparr>uuid = uu, id_on_exchange = ident, otype = ty, offer = off, status = st,
                strategy = strat,
                created_at = (case cr_at of None \<Rightarrow> now | Some t \<Rightarrow> t),
                executed_at = exe_at, expired_at = exp_at, commission = comm\<rparr>)"

definition Order_price_type :: "Order \<Rightarrow> string" where
  "Order_price_type ord = price_type (offer ord)"

definition Order_side :: "Order \<Rightarrow> error + string" where
  "Order_side ord = OFFER_ORDER_SIDES_MAP (Order_price_type ord)"

definition Order_quote :: "Order \<Rightarrow> Money" where
  "Order_quote ord = quote (offer ord)"

definition Order_base :: "Order \<Rightarrow> Money" where
  "Order_base ord = base (offer ord)"

definition Order_pair :: "Order \<Rightarrow> string" where
  "Order_pair ord = Offer_pair (offer ord)"

definition Order_price :: "Order \<Rightarrow> real" where
  "Order_price ord = price (offer ord)"

definition Order_exchange :: "Order \<Rightarrow> Exchange option" where
  "Order_exchange ord = exchange (offer ord)"

definition is_closed :: "Order \<Rightarrow> bool" where
  "is_closed ord = (status ord \<in> set [FULFILLED, CANCELLED])"

definition is_placed :: "Order \<Rightarrow> bool" where
  "is_placed ord = (status ord \<in> set [PLACED, FULFILLED])"

text \<open>\<open>Order.reversed(new_price)\<close>: \<open>new_price or self.price\<close> takes the order's price
  when \<open>new_price\<close> is zero.\<close>

definition Order_reversed :: "int \<Rightarrow> Order \<Rightarrow> real \<Rightarrow> error + Order" where
  "Order_reversed now ord new_price =
     (case Offer_init (reversed_price_type (offer ord)) (Order_pair ord)
             (if new_price \<noteq> 0 then new_price else Order_price ord)
             (amount (Order_quote ord)) (Order_exchange ord) (timestamp (offer ord)) of
        Inl e \<Rightarrow> Inl e
      | Inr f \<Rightarrow> Order_init now f CREATED [] MARKET None None None 0 None None)"

subsection \<open>strategy/arbitrage.py: the window\<close>

record ArbitrageWindow =
  ask_offer :: Offer
  bid_offer :: Offer
  direct_width :: real
  reversed_width :: real

text \<open>
  \<open>ArbitrageWindow.__init__\<close> with \<open>_assert_offers\<close>. The message of the third
  assertion prints both offers, which reads the name of each offer's venue.
\<close>

definition ArbitrageWindow_init ::
  "Offer \<Rightarrow> Offer \<Rightarrow> real \<Rightarrow> real \<Rightarrow> error + ArbitrageWindow" where
  "ArbitrageWindow_init a b dw rw =
     (if price_type a \<noteq> ASK then Inl AssertionError
      else if price_type b \<noteq> BID then Inl AssertionError
      else if Offer_pair a \<noteq> Offer_pair b
           then (if exchange a = None \<or> exchange b = None then Inl AttributeError
                 else Inl AssertionError)
      else Inr \<lparr>ask_offer = a, bid_offer = b, direct_width = dw, reversed_width = rw\<rparr>)"

definition is_opened :: "ArbitrageWindow \<Rightarrow> error + bool" where
  "is_opened w =
     (case total_price (ask_offer w) of
        Inl e \<Rightarrow> Inl e
      | Inr ta \<Rightarrow>
          (case total_price (bid_offer w) of
             Inl e \<Rightarrow> Inl e
           | Inr tb \<Rightarrow> Inr (ta * direct_width w < tb)))"

definition window_is_closed :: "ArbitrageWindow \<Rightarrow> bool" where
  "window_is_closed w = (price (bid_offer w) \<le> price (ask_offer w) * reversed_width w)"

text \<open>
  \<open>e.message\<close> for a caught \<open>FetchPairError\<close>: \<open>FetchPairError.__init__\<close> sets only
  \<open>pair\<close> and \<open>response\<close> and does not call the initialiser of its base class, so the
  attribute \<open>message\<close> does not exist and reading it raises \<open>AttributeError\<close>.
\<close>

definition FetchPairError_message :: "error + string" where
  "FetchPairError_message = Inl AttributeError"

text \<open>
  \<open>Arbitrage.get_reversed_order\<close>: the reversed offer is refreshed. When the refresh
  raises \<open>FetchPairError\<close>, the handler takes the stale reversed offer as the fresh
  one and then formats \<open>e.message\<close> into its warning, before the reversed order is
  built.
\<close>

definition get_reversed_order ::
  "int \<Rightarrow> (error + (string \<rightharpoonup> real)) \<Rightarrow> Order \<Rightarrow> error + Order" where
  "get_reversed_order now fresh ord =
     (case Offer_reversed (offer ord) of
        Inl e \<Rightarrow> Inl e
      | Inr reversed_offer \<Rightarrow>
          (case refreshed fresh reversed_offer of
             Inl e \<Rightarrow>
               (if e = FetchPairError
                then (let fresh_offer = reversed_offer
                      in case FetchPairError_message of
                           Inl err \<Rightarrow> Inl err
                         | Inr message \<Rightarrow> Order_reversed now ord (price fresh_offer))
                else Inl e)
           | Inr fresh_offer \<Rightarrow> Order_reversed now ord (price fresh_offer)))"

subsection \<open>exchange/base/exchange.py: validation and placement\<close>

text \<open>
  The log lines of \<open>validate\<close> and \<open>place\<close> format the order with \<open>Order.__str__\<close>,
  which reads \<open>order.side\<close> and then \<open>order.exchange.name\<close>: a price type that is
  neither ask nor bid raises \<open>KeyError\<close>, an order without a venue \<open>AttributeError\<close>.
\<close>

definition Order_str :: "Order \<Rightarrow> error + unit" where
  "Order_str ord =
     (case Order_side ord of
        Inl e \<Rightarrow> Inl e
      | Inr side \<Rightarrow>
          (case Order_exchange ord of None \<Rightarrow> Inl AttributeError | Some e \<Rightarrow> Inr ()))"

definition validate :: "Exchange \<Rightarrow> Order \<Rightarrow> error + bool" where
  "validate ex ord =
     (let is_too_small = amount (Order_quote ord) < get_pair_limit ex (Order_pair ord)
      in if is_too_small
         then (case Order_str ord of Inl e \<Rightarrow> Inl e | Inr u \<Rightarrow> Inr False)
         else
           (let quote_balance = get_balance ex (currency (Order_quote ord));
                base_balance = get_balance ex (currency (Order_base ord))
            in case Order_side ord of
                 Inl e \<Rightarrow> Inl e
               | Inr side \<Rightarrow>
                   (case get_factor side of
                      None \<Rightarrow> Inl TypeError
                    | Some k \<Rightarrow>
                        (let final_quote_balance =
                               quote_balance - k * amount (Order_quote ord);
                             final_base_balance =
                               base_balance + k * amount (Order_base ord)
                         in case Order_str ord of
                              Inl e \<Rightarrow> Inl e
                            | Inr u \<Rightarrow>
                                (let is_quote_enough =
                                       (0 \<le> floor_with_precision final_quote_balance 8);
                                     is_base_enough =
                                       (0 \<le> floor_with_precision final_base_balance 8)
                                 in Inr (is_quote_enough \<and> is_base_enough))))))"

text \<open>
  \<open>Exchange.place\<close>. The session's \<open>place\<close> is a parameter: it takes the order and the
  session state and gives the venue's answer (or an exception) and the new state. A
  \<open>PlacedOrder\<close> built without \<open>success\<close>, \<open>order_id\<close> or \<open>response\<close> has the
  defaults \<open>False\<close>, \<open>''\<close> and \<open>''\<close>.
\<close>

definition place ::
  "(Order \<Rightarrow> 's \<Rightarrow> (error + PlacedOrder) \<times> 's) \<Rightarrow> Exchange \<Rightarrow> Order \<Rightarrow> 's
     \<Rightarrow> (error + PlacedOrder) \<times> 's" where
  "place session_place ex ord s =
     (if is_closed ord then (Inl AssertionError, s)
      else
        (case validate ex ord of
           Inl e \<Rightarrow> (Inl e, s)
         | Inr valid \<Rightarrow>
             (if \<not> valid
              then (Inr \<lparr>success = False, order_id = Some [], order_status = status ord,
                         response = []\<rparr>, s)
              else if status ord = PLACED
              then (Inr \<lparr>success = False, order_id = id_on_exchange ord,
                         order_status = status ord, response = []\<rparr>, s)
              else
                (case session_place ord s of
                   (Inl e, s') \<Rightarrow> (Inl e, s')
                 | (Inr place_result, s') \<Rightarrow>
                     (let is_placed = order_status place_result \<in> set [PLACED, FULFILLED];
                          is_success = (success place_result \<and> is_placed)
                      in (Inr \<lparr>success = is_success, order_id = order_id place_result,
                               order_status = order_status place_result,
                               response = response place_result\<rparr>, s'))))))"

subsection \<open>strategy/arbitrage.py: sizing\<close>

text \<open>
  The loop of \<open>get_max_offer_and_balance\<close> over the offers of one price type, with the
  triple \<open>(min_amount, min_price, min_offer)\<close> as its state.
\<close>

fun get_max_offer_and_balance_loop ::
  "string \<Rightarrow> Offer list \<Rightarrow> real \<times> real \<times> Offer option
     \<Rightarrow> error + (real \<times> real \<times> Offer option)" where
  "get_max_offer_and_balance_loop pt [] acc = Inr acc"
| "get_max_offer_and_balance_loop pt (f # fs) (min_amount, min_price, min_offer) =
     (if price_type f = pt
      then
        (if price_type f = ASK \<or> price_type f = BID
         then
           (let offer_money = (if price_type f = ASK then base f else quote f)
            in case exchange f of
                 None \<Rightarrow> Inl AttributeError
               | Some e \<Rightarrow>
                   (let balance = get_balance e (currency offer_money);
                        am = min balance (amount offer_money)
                    in if am < min_amount
                       then get_max_offer_and_balance_loop pt fs (am, price f, Some f)
                       else get_max_offer_and_balance_loop pt fs
                              (min_amount, min_price, min_offer)))
         else Inl AttributeError)
      else get_max_offer_and_balance_loop pt fs (min_amount, min_price, min_offer))"

definition get_max_offer_and_balance ::
  "Offer list \<Rightarrow> string \<Rightarrow> error + (real \<times> real \<times> Offer)" where
  "get_max_offer_and_balance offers pt =
     (case get_max_offer_and_balance_loop pt offers (MAX_SUM, 0, None) of
        Inl e \<Rightarrow> Inl e
      | Inr (min_amount, min_price, None) \<Rightarrow> Inl AssertionError
      | Inr (min_amount, min_price, Some min_offer) \<Rightarrow>
          Inr (min_amount, min_price, min_offer))"

text \<open>
  \<open>min([offer.exchange.get_limit() or const.MAX_SUM for offer in offers])\<close>: a limit of
  zero stands for no limit.
\<close>

fun exchange_limits :: "Offer list \<Rightarrow> error + real list" where
  "exchange_limits [] = Inr []"
| "exchange_limits (f # fs) =
     (case exchange f of
        None \<Rightarrow> Inl AttributeError
      | Some e \<Rightarrow>
          (case exchange_limits fs of
             Inl err \<Rightarrow> Inl err
           | Inr ls \<Rightarrow> Inr ((if get_limit e \<noteq> 0 then get_limit e else MAX_SUM) # ls)))"

definition exchange_limit :: "Offer list \<Rightarrow> error + real" where
  "exchange_limit offers =
     (case exchange_limits offers of
        Inl e \<Rightarrow> Inl e
      | Inr ls \<Rightarrow> (if ls = [] then Inl ValueError else Inr (min_list ls)))"

definition get_max_spend :: "Offer list \<Rightarrow> real \<Rightarrow> error + (Money \<times> Money)" where
  "get_max_spend offers max_spend_part =
     (case offers of
        [] \<Rightarrow> Inl IndexError
      | first # rest \<Rightarrow>
          (let base_currency = currency (base first);
               quote_currency = currency (quote first)
           in if \<not> list_all (\<lambda>f. currency (base f) = base_currency \<and>
                                   currency (quote f) = quote_currency) offers
              then Inl AssertionError
              else
                (case exchange_limit offers of
                   Inl e \<Rightarrow> Inl e
                 | Inr exchange_lim \<Rightarrow>
                     (case get_max_offer_and_balance offers ASK of
                        Inl e \<Rightarrow> Inl e
                      | Inr (max_base_sum, max_base_price, ask) \<Rightarrow>
                          (case get_max_offer_and_balance offers BID of
                             Inl e \<Rightarrow> Inl e
                           | Inr (max_quote_sum, max_quote_price, bid) \<Rightarrow>
                               (if max_base_price = 0 then Inl ZeroDivisionError
                                else
                                  (let max_quote_sum' =
                                         min max_quote_sum (max_base_sum / max_base_price);
                                       max_base_sum' =
                                         min max_base_sum (max_quote_sum' * max_base_price)
                                   in case exchange ask of
                                        None \<Rightarrow> Inl AttributeError
                                      | Some ea \<Rightarrow>
                                          (case exchange bid of
                                             None \<Rightarrow> Inl AttributeError
                                           | Some eb \<Rightarrow>
                                               (let max_base_sum'' =
                                                      max_base_sum' * (1 - 2 * fee ea)
                                                        * max_spend_part;
                                                    max_quote_sum'' =
                                                      max_quote_sum' * (1 - 2 * fee eb)
                                                        * max_spend_part;
                                                    max_quote_sum_or_limit =
                                                      min max_quote_sum'' exchange_lim
                                                in Inr (\<lparr>amount = max_base_sum'',
                                                          currency = base_currency\<rparr>,
                                                        \<lparr>amount = max_quote_sum_or_limit,
                                                          currency = quote_currency\<rparr>))))))))))"

subsection \<open>strategy/arbitrage.py: the forced-reversal deadline\<close>

text \<open>
  \<open>all(order.executed_at < expired_after for order in orders)\<close>: the orders are
  compared one after the other, the first false comparison ends the evaluation, and a
  comparison of \<open>None\<close> with a datetime raises \<open>TypeError\<close>.
\<close>

fun all_executed_before :: "int \<Rightarrow> Order list \<Rightarrow> error + bool" where
  "all_executed_before expired_after [] = Inr True"
| "all_executed_before expired_after (ord # ords) =
     (case executed_at ord of
        None \<Rightarrow> Inl TypeError
      | Some t \<Rightarrow>
          (if t < expired_after then all_executed_before expired_after ords
           else Inr False))"

definition are_orders_expired :: "int \<Rightarrow> int \<Rightarrow> Order list \<Rightarrow> error + bool" where
  "are_orders_expired now autoreverse_order_delta orders =
     (let expired_after = now - autoreverse_order_delta
      in all_executed_before expired_after orders)"

subsection \<open>models/queue.py: the reversal queue\<close>

text \<open>
  The tables \<open>order_pairs\<close> and \<open>orders\<close> live in the relational store; the records
  below have the columns that the code reads and writes, a table is the list of its rows.
\<close>

record order_pairs_row =
  op_uuid :: string
  left_order_uuid :: string
  right_order_uuid :: string
  op_time :: int

record orders_row =
  row_uuid :: string
  row_id_on_exchange :: "string option"
  row_status :: string
  row_pair :: string
  row_side :: string
  row_price :: real
  row_quote :: real
  row_exchange :: string
  row_type :: string
  row_created_at :: "int option"
  row_expired_at :: "int option"
  row_executed_at :: "int option"

record database =
  order_pairs :: "order_pairs_row list"
  orders :: "orders_row list"

text \<open>
  The query of \<open>PostgresQueue.pop\<close>: the row of \<open>order_pairs\<close> that comes first when
  the table is ordered by \<open>time\<close> is deleted, and the rows of \<open>orders\<close> that it
  references are returned ordered by \<open>type\<close>. Rows that compare equal keep the order
  of the table.
\<close>

definition select_oldest :: "order_pairs_row list \<Rightarrow> string list" where
  "select_oldest rows = map op_uuid (take 1 (sort_key op_time rows))"

definition pop_query :: "database \<Rightarrow> orders_row list \<times> database" where
  "pop_query db =
     (let ids = select_oldest (order_pairs db);
          deleted = filter (\<lambda>r. op_uuid r \<in> set ids) (order_pairs db);
          remaining = filter (\<lambda>r. op_uuid r \<notin> set ids) (order_pairs db);
          joined = concat (map (\<lambda>d. map (\<lambda>r. d)
                     (filter (\<lambda>r. row_uuid d = left_order_uuid r \<or>
                                   row_uuid d = right_order_uuid r) deleted)) (orders db))
      in (sort_key row_type joined, db\<lparr>order_pairs := remaining\<rparr>))"

text \<open>\<open>Exchanges.get(name)\<close> on the map from venue names to venues.\<close>

definition Exchanges_get :: "(string \<rightharpoonup> Exchange) \<Rightarrow> string \<Rightarrow> error + Exchange" where
  "Exchanges_get exchanges_map n =
     (case exchanges_map n of None \<Rightarrow> Inl (NoSuchExchangeError n) | Some e \<Rightarrow> Inr e)"

text \<open>\<open>Order.from_data(data, exchange)\<close>: the order of a row of \<open>orders\<close>.\<close>

definition from_data :: "int \<Rightarrow> orders_row \<Rightarrow> Exchange \<Rightarrow> error + Order" where
  "from_data now data ex =
     (case ORDER_OFFER_SIDES_MAP (row_side data) of
        Inl e \<Rightarrow> Inl e
      | Inr pt \<Rightarrow>
          (case Offer_init pt (row_pair data) (row_price data) (row_quote data) (Some ex) 0 of
             Inl e \<Rightarrow> Inl e
           | Inr f \<Rightarrow>
               Order_init now f (row_status data) [] LIMIT (row_created_at data)
                 (row_expired_at data) (row_executed_at data) 0
                 (row_id_on_exchange data) (Some (row_uuid data))))"

definition get_order :: "int \<Rightarrow> (string \<rightharpoonup> Exchange) \<Rightarrow> orders_row \<Rightarrow> error + Order" where
  "get_order now exchanges_map data =
     (case Exchanges_get exchanges_map (row_exchange data) of
        Inl e \<Rightarrow> Inl e
      | Inr ex \<Rightarrow> from_data now data ex)"

text \<open>
  \<open>PostgresQueue.pop\<close>: the fetched rows are unpacked into two (anything but zero or
  two rows raises \<open>ValueError\<close>), swapped when the first is not a buy, and turned into
  orders, the first one first.
\<close>

definition pop ::
  "int \<Rightarrow> (string \<rightharpoonup> Exchange) \<Rightarrow> database \<Rightarrow> (error + Order \<times> Order) \<times> database" where
  "pop now exchanges_map db =
     (case pop_query db of
        (orders_pair, db') \<Rightarrow>
          (case orders_pair of
             [] \<Rightarrow> (Inl QueueEmpty, db')
           | [left_data, right_data] \<Rightarrow>
               (let (left_data', right_data') =
                      (if row_side left_data \<noteq> BUY then (right_data, left_data)
                       else (left_data, right_data))
                in case get_order now exchanges_map left_data' of
                     Inl e \<Rightarrow> (Inl e, db')
                   | Inr l \<Rightarrow>
                       (case get_order now exchanges_map right_data' of
                          Inl e \<Rightarrow> (Inl e, db')
                        | Inr r \<Rightarrow> (Inr (l, r), db')))
           | _ \<Rightarrow> (Inl ValueError, db')))"

text \<open>
  \<open>PostgresQueue.push\<close>: one row with the two uuids as strings; the row's own
  \<open>uuid\<close> and \<open>time\<close> are filled in by the store.
\<close>

definition str_of_uuid :: "string option \<Rightarrow> string" where
  "str_of_uuid u = (case u of None \<Rightarrow> ''None'' | Some v \<Rightarrow> v)"

definition push :: "string \<Rightarrow> int \<Rightarrow> Order \<times> Order \<Rightarrow> database \<Rightarrow> database" where
  "push new_uuid new_time orders_pair db =
     (case orders_pair of
        (l, r) \<Rightarrow>
          db\<lparr>order_pairs := order_pairs db @
               [\<lparr>op_uuid = new_uuid, left_order_uuid = str_of_uuid (uuid l),
                 right_order_uuid = str_of_uuid (uuid r), op_time = new_time\<rparr>]\<rparr>)"

section \<open>Two venues, their offers and orders\<close>

text \<open>
  The venues \<open>left\<close> and \<open>right\<close> trade ETCUSD; the theorems below are applied to
  them. \<open>ex_overdrawn\<close> is \<open>left\<close> with a negative ETC balance, \<open>ex_empty\<close> a
  venue without funds.
\<close>

definition ex_left :: Exchange where
  "ex_left = \<lparr>name = ''left'', default_pairs = [''BTCUSD'', ''ETCUSD''], fee = 1 / 100,
              limit = 0, pair_limits = Map.empty(''ETCUSD'' \<mapsto> 1 / 10),
              balances = Map.empty(''USD'' \<mapsto> 1000, ''ETC'' \<mapsto> 1)\<rparr>"

definition ex_right :: Exchange where
  "ex_right = \<lparr>name = ''right'', default_pairs = [''BTCUSD'', ''ETCUSD''], fee = 1 / 100,
               limit = 1 / 2, pair_limits = Map.empty,
               balances = Map.empty(''USD'' \<mapsto> 300, ''ETC'' \<mapsto> 1)\<rparr>"

definition ex_overdrawn :: Exchange where
  "ex_overdrawn = ex_left\<lparr>balances := Map.empty(''USD'' \<mapsto> 1000, ''ETC'' \<mapsto> - 5)\<rparr>"

definition ex_empty :: Exchange where
  "ex_empty = ex_left\<lparr>balances := Map.empty(''USD'' \<mapsto> 0, ''ETC'' \<mapsto> 0)\<rparr>"

definition etcusd :: PairName where
  "etcusd = \<lparr>pn_quote = ''ETC'', pn_base = ''USD''\<rparr>"

definition ask_left :: Offer where
  "ask_left = \<lparr>pair_name = etcusd, base = \<lparr>amount = 600, currency = ''USD''\<rparr>,
               quote = \<lparr>amount = 2, currency = ''ETC''\<rparr>,
               price_type = ASK, price = 300, exchange = Some ex_left, timestamp = 0\<rparr>"

definition bid_right :: Offer where
  "bid_right = \<lparr>pair_name = etcusd, base = \<lparr>amount = 616, currency = ''USD''\<rparr>,
                quote = \<lparr>amount = 2, currency = ''ETC''\<rparr>,
                price_type = BID, price = 308, exchange = Some ex_right, timestamp = 0\<rparr>"

definition buy_order :: Order where
  "buy_order = \<lparr>uuid = Some ''u-buy'', id_on_exchange = Some ''42'', otype = LIMIT,
                offer = ask_left, status = PLACED, strategy = [], created_at = 900,
                executed_at = Some 950, expired_at = None, commission = 0\<rparr>"

definition sell_order :: Order where
  "sell_order = \<lparr>uuid = Some ''u-sell'', id_on_exchange = Some ''43'', otype = LIMIT,
                 offer = bid_right, status = PLACED, strategy = [], created_at = 900,
                 executed_at = None, expired_at = None, commission = 0\<rparr>"

definition overdrawn_buy :: Order where
  "overdrawn_buy =
     buy_order\<lparr>offer := ask_left\<lparr>exchange := Some ex_overdrawn\<rparr>, status := CREATED\<rparr>"

text \<open>
  \<open>ex_far\<close> is \<open>right\<close> without a global limit; \<open>ask_empty\<close> is the ask on the venue
  without funds, \<open>ask_zero\<close> the same ask at the price zero of an empty ticker.
\<close>

definition ex_far :: Exchange where
  "ex_far = ex_right\<lparr>name := ''far'', limit := 0\<rparr>"

definition bid_far :: Offer where
  "bid_far = bid_right\<lparr>exchange := Some ex_far\<rparr>"

definition ask_empty :: Offer where
  "ask_empty = ask_left\<lparr>exchange := Some ex_empty\<rparr>"

definition ask_zero :: Offer where
  "ask_zero = ask_empty\<lparr>price := 0, base := \<lparr>amount = 0, currency = ''USD''\<rparr>\<rparr>"

text \<open>
  The rows of \<open>orders\<close> of the two orders, the venues by name, and a queue of two
  pairs, the older one (\<open>p1\<close>) referencing the two orders. In \<open>queue_gone\<close> the
  venue of the sell order is no longer configured; in \<open>queue_dangling\<close> the referenced
  orders are not in \<open>orders\<close>.
\<close>

definition row_buy :: orders_row where
  "row_buy = \<lparr>row_uuid = ''u-buy'', row_id_on_exchange = Some ''42'', row_status = PLACED,
               row_pair = ''ETCUSD'', row_side = BUY, row_price = 300, row_quote = 2,
               row_exchange = ''left'', row_type = ''limit'', row_created_at = Some 900,
               row_expired_at = None, row_executed_at = Some 950\<rparr>"

definition row_sell :: orders_row where
  "row_sell = \<lparr>row_uuid = ''u-sell'', row_id_on_exchange = Some ''43'', row_status = PLACED,
                row_pair = ''ETCUSD'', row_side = SELL, row_price = 308, row_quote = 2,
                row_exchange = ''right'', row_type = ''limit'', row_created_at = Some 900,
                row_expired_at = None, row_executed_at = None\<rparr>"

definition venues :: "string \<rightharpoonup> Exchange" where
  "venues = Map.empty(''left'' \<mapsto> ex_left, ''right'' \<mapsto> ex_right)"

definition pair_new :: order_pairs_row where
  "pair_new = \<lparr>op_uuid = ''p2'', left_order_uuid = ''u-3'', right_order_uuid = ''u-4'',
                op_time = 20\<rparr>"

definition pair_old :: order_pairs_row where
  "pair_old = \<lparr>op_uuid = ''p1'', left_order_uuid = ''u-buy'', right_order_uuid = ''u-sell'',
                op_time = 10\<rparr>"

definition queue_db :: database where
  "queue_db = \<lparr>order_pairs = [pair_new, pair_old], orders = [row_sell, row_buy]\<rparr>"

definition queue_gone :: database where
  "queue_gone = \<lparr>order_pairs = [pair_old],
                  orders = [row_buy, row_sell\<lparr>row_exchange := ''gone''\<rparr>]\<rparr>"

definition queue_dangling :: database where
  "queue_dangling = \<lparr>order_pairs = [pair_old], orders = []\<rparr>"

text \<open>A session that accepts every order at once.\<close>

definition accepting_session :: "Order \<Rightarrow> nat \<Rightarrow> (error + PlacedOrder) \<times> nat" where
  "accepting_session ord s =
     (Inr \<lparr>success = True, order_id = Some ''99'', order_status = FULFILLED,
           response = ''ok''\<rparr>, Suc s)"

section \<open>Balance refresh\<close>

text \<open>
  Claim C7. \<open>Exchange.fetch_balances\<close> is atomic with respect to failure: when the
  session's answer has \<open>success = false\<close> the venue's balance map (and every other
  field of the venue) is what it was before the call; when it has \<open>success = true\<close>
  the balance map is exactly the map carried by the answer.
\<close>

theorem fetch_balances_atomic:
  "session_fetch_balances s = (Inr result, s') \<Longrightarrow>
     (\<not> sfb_success result \<longrightarrow>
        fetch_balances session_fetch_balances ex s = (Inr (), ex, s')) \<and>
     (sfb_success result \<longrightarrow>
        (\<exists>ex'. fetch_balances session_fetch_balances ex s = (Inr (), ex', s') \<and>
               balances ex' = sfb_balances result))"
  by (simp add: fetch_balances_def)

theorem fetch_balances_atomic_witness:
  "fetch_balances
     (\<lambda>s::nat. (Inr \<lparr>sfb_success = False, sfb_balances = Map.empty(''USD'' \<mapsto> 5),
                     sfb_response = ''error''\<rparr>, Suc s))
     \<lparr>name = ''left'', default_pairs = [''ETCUSD''], fee = 0, limit = 0,
      pair_limits = Map.empty, balances = Map.empty(''USD'' \<mapsto> 300)\<rparr> 0
   = (Inr (),
      \<lparr>name = ''left'', default_pairs = [''ETCUSD''], fee = 0, limit = 0,
       pair_limits = Map.empty, balances = Map.empty(''USD'' \<mapsto> 300)\<rparr>, Suc 0)
   \<and> (\<exists>ex'. fetch_balances
            (\<lambda>s::nat. (Inr \<lparr>sfb_success = True, sfb_balances = Map.empty(''USD'' \<mapsto> 5),
                            sfb_response = ''ok''\<rparr>, Suc s))
            \<lparr>name = ''left'', default_pairs = [''ETCUSD''], fee = 0, limit = 0,
             pair_limits = Map.empty, balances = Map.empty(''USD'' \<mapsto> 300)\<rparr> 0
          = (Inr (), ex', Suc 0) \<and> balances ex' ''USD'' = Some 5)"
  using fetch_balances_atomic
    [of "\<lambda>s::nat. (Inr \<lparr>sfb_success = False, sfb_balances = Map.empty(''USD'' \<mapsto> 5),
                     sfb_response = ''error''\<rparr>, Suc s)" 0
        "\<lparr>sfb_success = False, sfb_balances = Map.empty(''USD'' \<mapsto> 5),
          sfb_response = ''error''\<rparr>" "Suc 0"]
    fetch_balances_atomic
    [of "\<lambda>s::nat. (Inr \<lparr>sfb_success = True, sfb_balances = Map.empty(''USD'' \<mapsto> 5),
                     sfb_response = ''ok''\<rparr>, Suc s)" 0
        "\<lparr>sfb_success = True, sfb_balances = Map.empty(''USD'' \<mapsto> 5),
          sfb_response = ''ok''\<rparr>" "Suc 0"
        "\<lparr>name = ''left'', default_pairs = [''ETCUSD''], fee = 0, limit = 0,
          pair_limits = Map.empty, balances = Map.empty(''USD'' \<mapsto> 300)\<rparr>"]
  by auto

section \<open>Upper-casing and pair names\<close>

lemma upper_char_idem: "upper_char (upper_char c) = upper_char c"
proof -
  define n :: nat where "n = of_char c"
  show ?thesis
  proof (cases "97 \<le> n \<and> n \<le> 122")
    case True
    then have "n - 32 < 256" by arith
    then have "(of_char (char_of (n - 32)) :: nat) = n - 32"
      by (simp add: of_char_of)
    moreover have "\<not> (97 \<le> n - 32 \<and> n - 32 \<le> 122)"
      using True by arith
    ultimately show ?thesis
      using True by (auto simp add: upper_char_def Let_def n_def)
  next
    case False
    then have "upper_char c = c"
      unfolding n_def by (auto simp add: upper_char_def Let_def)
    then show ?thesis by simp
  qed
qed

lemma upper_idem: "upper (upper s) = upper s"
  by (simp add: upper_def upper_char_idem)

lemma to_common_format_PairName_init: "to_common_format (PairName_init p) = upper p"
  by (simp add: to_common_format_def PairName_init_def upper_def take_map drop_map
      flip: map_append)

lemma PairName_init_upper: "PairName_init (upper p) = PairName_init p"
  by (simp add: PairName_init_def upper_def take_map drop_map upper_char_idem)

lemma Offer_init_Inr:
  "Offer_init pt p pr q ex ts = Inr f \<Longrightarrow>
     f = \<lparr>pair_name = PairName_init p,
          base = \<lparr>amount = py_round (q * pr) 5, currency = upper (drop 3 p)\<rparr>,
          quote = \<lparr>amount = q, currency = upper (take 3 p)\<rparr>,
          price_type = pt, price = pr, exchange = ex, timestamp = ts\<rparr> \<and>
     (\<forall>e. ex = Some e \<longrightarrow> upper p \<in> set (default_pairs e))"
  by (auto simp add: Offer_init_def Let_def PairName_init_def to_common_format_def upper_def
      take_map drop_map simp flip: map_append split: if_splits option.splits)

lemma Offer_init_ok:
  "(\<forall>e. ex = Some e \<longrightarrow> upper p \<in> set (default_pairs e)) \<Longrightarrow>
     Offer_init pt p pr q ex ts =
       Inr \<lparr>pair_name = PairName_init p,
            base = \<lparr>amount = py_round (q * pr) 5, currency = upper (drop 3 p)\<rparr>,
            quote = \<lparr>amount = q, currency = upper (take 3 p)\<rparr>,
            price_type = pt, price = pr, exchange = ex, timestamp = ts\<rparr>"
  by (auto simp add: Offer_init_def Let_def PairName_init_def to_common_format_def upper_def
      take_map drop_map simp flip: map_append split: option.splits)

lemma ask_left_built: "Offer_init ASK ''etcusd'' 300 2 (Some ex_left) 0 = Inr ask_left"
  by (simp add: Offer_init_def PairName_init_def to_common_format_def upper_def upper_char_def
      char_of_def bit_Suc_0_iff ex_left_def ask_left_def etcusd_def py_round_def round_half_even_def Let_def)


section \<open>Offers\<close>

text \<open>
  Claim C8. Every successfully constructed offer has the base amount
  \<open>round(quote * price, 5)\<close> in the base currency of its pair, and with a venue attached
  its pair (the parsed pair in common form, which is the upper-cased argument) is one
  of the venue's \<open>default_pairs\<close>; the construction fails when that pair is not among
  them.
\<close>

theorem Offer_init_invariant:
  "(Offer_init pt p pr q ex ts = Inr f \<longrightarrow>
      amount (base f) = py_round (q * pr) 5 \<and>
      currency (base f) = pn_base (pair_name f) \<and>
      pn_base (pair_name f) = upper (drop 3 p) \<and>
      (\<forall>e. exchange f = Some e \<longrightarrow> Offer_pair f \<in> set (default_pairs e))) \<and>
   (\<forall>e. ex = Some e \<and> upper p \<notin> set (default_pairs e) \<longrightarrow>
      Offer_init pt p pr q ex ts = Inl AssertionError)"
proof (intro conjI impI allI)
  assume ok: "Offer_init pt p pr q ex ts = Inr f"
  note f = Offer_init_Inr [OF ok]
  from f show "amount (base f) = py_round (q * pr) 5" by simp
  from f show "currency (base f) = pn_base (pair_name f)"
    by (simp add: PairName_init_def)
  from f show "pn_base (pair_name f) = upper (drop 3 p)"
    by (simp add: PairName_init_def)
  fix e assume "exchange f = Some e"
  with f show "Offer_pair f \<in> set (default_pairs e)"
    by (simp add: Offer_pair_def to_common_format_PairName_init)
next
  fix e assume "ex = Some e \<and> upper p \<notin> set (default_pairs e)"
  then show "Offer_init pt p pr q ex ts = Inl AssertionError"
    by (simp add: Offer_init_def Let_def to_common_format_PairName_init)
qed

theorem Offer_init_invariant_witness:
  "Offer_init ASK ''etcusd'' 300 2 (Some ex_left) 0 = Inr ask_left \<and>
   amount (base ask_left) = py_round (2 * 300) 5 \<and>
   currency (base ask_left) = ''USD'' \<and>
   exchange ask_left = Some ex_left \<and>
   Offer_pair ask_left \<in> set (default_pairs ex_left) \<and>
   upper ''LTCUSD'' \<notin> set (default_pairs ex_left) \<and>
   Offer_init ASK ''LTCUSD'' 305 2 (Some ex_left) 0 = Inl AssertionError"
  using Offer_init_invariant [of ASK "''etcusd''" 300 2 "Some ex_left" 0 ask_left]
    Offer_init_invariant [of ASK "''LTCUSD''" 305 2 "Some ex_left" 0]
    ask_left_built
  by (simp add: upper_def upper_char_def char_of_def bit_Suc_0_iff ex_left_def ask_left_def etcusd_def)

section \<open>The arbitrage window\<close>

text \<open>
  Claim C5. For a window built from an ask offer and a bid offer, each on a venue:
  the total price of the ask is \<open>price * (1 + fee)\<close> and that of the bid
  \<open>price * (1 - fee)\<close> with the fee of the offer's venue; the window is open exactly
  when \<open>ask.total_price * direct_width < bid.total_price\<close> and closed exactly when
  \<open>ask.price * reversed_width \<ge> bid.price\<close>.
\<close>

theorem window_predicates:
  assumes "ArbitrageWindow_init a b dw rw = Inr w"
    and "exchange a = Some ea" and "exchange b = Some eb"
  shows "total_price a = Inr (price a * (1 + fee ea))
       \<and> total_price b = Inr (price b * (1 - fee eb))
       \<and> is_opened w = Inr (price a * (1 + fee ea) * dw < price b * (1 - fee eb))
       \<and> window_is_closed w = (price a * rw \<ge> price b)"
proof -
  from assms(1) have w: "w = \<lparr>ask_offer = a, bid_offer = b, direct_width = dw, reversed_width = rw\<rparr>"
    and a: "price_type a = ASK" and b: "price_type b = BID"
    by (auto simp add: ArbitrageWindow_init_def split: if_splits)
  have ta: "total_price a = Inr (price a * (1 + fee ea))"
    using a assms(2) by (simp add: total_price_def)
  have "BID \<noteq> ASK" by (simp add: BID_def ASK_def)
  then have tb: "total_price b = Inr (price b * (1 - fee eb))"
    using b assms(3) by (simp add: total_price_def)
  show ?thesis
    using ta tb by (simp add: w is_opened_def window_is_closed_def)
qed

theorem window_predicates_witness:
  "ArbitrageWindow_init ask_left bid_right 1 1
     = Inr \<lparr>ask_offer = ask_left, bid_offer = bid_right, direct_width = 1, reversed_width = 1\<rparr>
   \<and> exchange ask_left = Some ex_left \<and> exchange bid_right = Some ex_right
   \<and> total_price ask_left = Inr 303
   \<and> total_price bid_right = Inr (30492 / 100)
   \<and> is_opened \<lparr>ask_offer = ask_left, bid_offer = bid_right, direct_width = 1,
                  reversed_width = 1\<rparr> = Inr True
   \<and> \<not> window_is_closed \<lparr>ask_offer = ask_left, bid_offer = bid_right, direct_width = 1,
                            reversed_width = 1\<rparr>"
  using window_predicates [of ask_left bid_right 1 1
      "\<lparr>ask_offer = ask_left, bid_offer = bid_right, direct_width = 1, reversed_width = 1\<rparr>"
      ex_left ex_right]
  by (simp add: ArbitrageWindow_init_def Offer_pair_def to_common_format_def ask_left_def
      bid_right_def etcusd_def ex_left_def ex_right_def ASK_def BID_def)

section \<open>Reversed orders\<close>

lemma reversed_price_type_nonempty: "reversed_price_type f \<noteq> []"
  by (simp add: reversed_price_type_def ASK_def BID_def)

lemma Offer_pair_built:
  "Offer_init pt p pr q ex ts = Inr f \<Longrightarrow> Offer_pair f = upper p"
  by (drule Offer_init_Inr) (simp add: Offer_pair_def to_common_format_PairName_init)

lemma Offer_init_again:
  assumes "Offer_init pt p pr q ex ts = Inr f"
  shows "Offer_init pt' (Offer_pair f) pr' q' (exchange f) ts' =
           Inr \<lparr>pair_name = pair_name f,
                base = \<lparr>amount = py_round (q' * pr') 5, currency = currency (base f)\<rparr>,
                quote = \<lparr>amount = q', currency = currency (quote f)\<rparr>,
                price_type = pt', price = pr', exchange = exchange f, timestamp = ts'\<rparr>"
proof -
  note f = Offer_init_Inr [OF assms]
  have pair: "Offer_pair f = upper p" by (rule Offer_pair_built [OF assms])
  have ok: "\<forall>e. exchange f = Some e \<longrightarrow> upper (upper p) \<in> set (default_pairs e)"
    using f by (simp add: upper_idem)
  have "Offer_init pt' (upper p) pr' q' (exchange f) ts' =
          Inr \<lparr>pair_name = PairName_init (upper p),
               base = \<lparr>amount = py_round (q' * pr') 5, currency = upper (drop 3 (upper p))\<rparr>,
               quote = \<lparr>amount = q', currency = upper (take 3 (upper p))\<rparr>,
               price_type = pt', price = pr', exchange = exchange f, timestamp = ts'\<rparr>"
    by (rule Offer_init_ok [OF ok])
  moreover have "upper (drop 3 (upper p)) = upper (drop 3 p)"
    and "upper (take 3 (upper p)) = upper (take 3 p)"
    by (simp_all add: upper_def drop_map take_map upper_char_idem)
  moreover have "pair_name f = PairName_init p"
    and "currency (base f) = upper (drop 3 p)"
    and "currency (quote f) = upper (take 3 p)"
    using f by simp_all
  ultimately show ?thesis
    by (simp only: pair PairName_init_upper)
qed

lemma Order_reversed_eq:
  assumes "Offer_init pt p pr q ex ts = Inr (offer ord)"
  shows "Order_reversed now ord new_price =
           Inr \<lparr>uuid = None, id_on_exchange = None, otype = MARKET,
                offer = \<lparr>pair_name = pair_name (offer ord),
                    base = \<lparr>amount = py_round (amount (quote (offer ord)) *
                               (if new_price \<noteq> 0 then new_price else price (offer ord))) 5,
                            currency = currency (base (offer ord))\<rparr>,
                    quote = \<lparr>amount = amount (quote (offer ord)),
                             currency = currency (quote (offer ord))\<rparr>,
                    price_type = reversed_price_type (offer ord),
                    price = (if new_price \<noteq> 0 then new_price else price (offer ord)),
                    exchange = exchange (offer ord), timestamp = timestamp (offer ord)\<rparr>,
                status = CREATED, strategy = [], created_at = now, executed_at = None,
                expired_at = None, commission = 0\<rparr>"
  unfolding Order_reversed_def Order_pair_def Order_price_def Order_quote_def
    Order_exchange_def Offer_init_again [OF assms]
  by (simp add: Order_init_def ORDER_TYPES_def)

lemma Offer_reversed_eq:
  assumes "Offer_init pt p pr q ex ts = Inr f"
  shows "Offer_reversed f =
           Inr \<lparr>pair_name = pair_name f,
                base = \<lparr>amount = py_round (amount (quote f) * price f) 5,
                        currency = currency (base f)\<rparr>,
                quote = \<lparr>amount = amount (quote f), currency = currency (quote f)\<rparr>,
                price_type = reversed_price_type f, price = price f,
                exchange = exchange f, timestamp = timestamp f\<rparr>"
  unfolding Offer_reversed_def clone_def
  by (simp add: no_kwargs_def reversed_price_type_nonempty Offer_init_again [OF assms])

lemma get_reversed_order_fetch_failed:
  assumes "Offer_init pt p pr q ex ts = Inr (offer ord)"
    and "exchange (offer ord) = Some e"
  shows "get_reversed_order now (Inl FetchPairError) ord = Inl AttributeError"
  unfolding get_reversed_order_def Offer_reversed_eq [OF assms(1)]
  using assms(2) by (simp add: refreshed_def FetchPairError_message_def)

lemma get_reversed_order_fresh:
  assumes built: "Offer_init pt p pr q ex ts = Inr (offer ord)"
    and ex: "exchange (offer ord) = Some e"
    and fp: "pair_data (reversed_price_type (offer ord)) = Some fp"
    and t: "pair_data ''time'' = Some t"
  shows "get_reversed_order now (Inr pair_data) ord = Order_reversed now ord fp"
proof -
  define rf where "rf = \<lparr>pair_name = pair_name (offer ord),
                base = \<lparr>amount = py_round (amount (quote (offer ord)) * price (offer ord)) 5,
                        currency = currency (base (offer ord))\<rparr>,
                quote = \<lparr>amount = amount (quote (offer ord)),
                         currency = currency (quote (offer ord))\<rparr>,
                price_type = reversed_price_type (offer ord), price = price (offer ord),
                exchange = exchange (offer ord), timestamp = timestamp (offer ord)\<rparr>"
  have rev: "Offer_reversed (offer ord) = Inr rf"
    unfolding rf_def by (rule Offer_reversed_eq [OF built])
  have "Offer_init (reversed_price_type (offer ord)) (Offer_pair (offer ord))
          (price (offer ord)) (amount (quote (offer ord))) (exchange (offer ord))
          (timestamp (offer ord)) = Inr rf"
    unfolding rf_def by (simp add: Offer_init_again [OF built])
  note again = Offer_init_again [OF this]
  have "clone rf (no_kwargs\<lparr>kw_price := Some fp, kw_timestamp := Some t\<rparr>) =
          Offer_init (price_type rf) (Offer_pair rf) (if fp = 0 then price rf else fp)
            (amount (quote rf)) (exchange rf) (if t = 0 then timestamp rf else t)"
    by (simp add: clone_def no_kwargs_def)
  also note again
  finally have cl: "\<exists>g. clone rf (no_kwargs\<lparr>kw_price := Some fp, kw_timestamp := Some t\<rparr>)
                      = Inr g \<and> price g = (if fp = 0 then price rf else fp)"
    by simp
  have rf: "price rf = price (offer ord)" "exchange rf = Some e"
    "price_type rf = reversed_price_type (offer ord)"
    using ex by (simp_all add: rf_def)
  have "refreshed (Inr pair_data) rf =
          clone rf (no_kwargs\<lparr>kw_price := Some fp, kw_timestamp := Some t\<rparr>)"
    using fp t by (simp add: refreshed_def rf)
  with cl have "\<exists>g. refreshed (Inr pair_data) rf = Inr g \<and>
            price g = (if fp = 0 then price (offer ord) else fp)"
    by (simp only: rf)
  then obtain g where g: "refreshed (Inr pair_data) rf = Inr g"
    and pg: "price g = (if fp = 0 then price (offer ord) else fp)"
    by blast
  have "get_reversed_order now (Inr pair_data) ord = Order_reversed now ord (price g)"
    by (simp add: get_reversed_order_def rev g)
  also have "\<dots> = Order_reversed now ord fp"
    by (simp add: pg Order_reversed_eq [OF built])
  finally show ?thesis .
qed

text \<open>
  \<open>order.reversed(new_price)\<close> of an order whose offer was built by
  \<open>Offer.__init__\<close>: the side is flipped, pair and quote are the original's, the price
  is \<open>new_price\<close> when that is nonzero and the original price otherwise, the status is
  \<open>created\<close> and the type \<open>market\<close>. After a successful refresh the strategy's
  \<open>get_reversed_order\<close> is \<open>order.reversed\<close> at the fresh price of the reversed side.
\<close>

lemma Order_reversed_props:
  assumes built: "Offer_init pt p pr q ex ts = Inr (offer ord)"
  shows "\<exists>r. Order_reversed now ord new_price = Inr r
       \<and> (Order_price_type ord = ASK \<longrightarrow> Order_price_type r = BID)
       \<and> (Order_price_type ord = BID \<longrightarrow> Order_price_type r = ASK)
       \<and> Order_pair r = Order_pair ord
       \<and> Order_quote r = Order_quote ord
       \<and> Order_price r = (if new_price \<noteq> 0 then new_price else Order_price ord)
       \<and> status r = CREATED
       \<and> otype r = MARKET
       \<and> (\<forall>e pair_data fp t.
             Order_exchange ord = Some e \<and>
             pair_data (reversed_price_type (offer ord)) = Some fp \<and>
             pair_data ''time'' = Some t \<longrightarrow>
             get_reversed_order now (Inr pair_data) ord = Order_reversed now ord fp)"
proof -
  have "ASK \<noteq> BID" by (simp add: ASK_def BID_def)
  then show ?thesis
    using get_reversed_order_fresh [OF built]
    by (simp add: Order_reversed_eq [OF built] Order_price_type_def Order_pair_def
        Order_quote_def Order_price_def Order_exchange_def Offer_pair_def
        reversed_price_type_def)
qed

text \<open>
  Claim C6. \<open>order.reversed(new_price)\<close> flips the side, keeps pair and quote, takes
  \<open>new_price\<close> unless it is zero, and gives a \<open>created\<close> order of type \<open>market\<close>;
  the strategy supplies the freshly fetched price and is to fall back to the stale
  price when the refetch fails. The code misses the fallback: for the buy order on the
  venue \<open>left\<close>, whose offer \<open>Offer.__init__\<close> built, a refetch that raises
  \<open>FetchPairError\<close> makes \<open>get_reversed_order\<close> raise \<open>AttributeError\<close>, where the
  claim has the reversed order at the stale price 300, which \<open>order.reversed\<close> does
  build.
\<close>

theorem get_reversed_order_fetch_error:
  "Offer_init ASK ''etcusd'' 300 2 (Some ex_left) 0 = Inr (offer buy_order)
   \<and> Order_exchange buy_order = Some ex_left
   \<and> Order_price buy_order = 300
   \<and> get_reversed_order 1000 (Inl FetchPairError) buy_order = Inl AttributeError
   \<and> (\<exists>r. Order_reversed 1000 buy_order (Order_price buy_order) = Inr r
          \<and> Order_price_type r = BID \<and> Order_pair r = ''ETCUSD''
          \<and> amount (Order_quote r) = 2 \<and> Order_price r = 300
          \<and> status r = CREATED \<and> otype r = MARKET)"
proof -
  have b: "Offer_init ASK ''etcusd'' 300 2 (Some ex_left) 0 = Inr (offer buy_order)"
    by (simp add: buy_order_def ask_left_built)
  have facts: "Order_price_type buy_order = ASK" "Order_exchange buy_order = Some ex_left"
    "exchange (offer buy_order) = Some ex_left"
    "Order_pair buy_order = ''ETCUSD''" "amount (Order_quote buy_order) = 2"
    "Order_price buy_order = 300"
    by (simp_all add: Order_price_type_def Order_exchange_def Order_pair_def Order_quote_def
        Order_price_def Offer_pair_def to_common_format_def
        buy_order_def ask_left_def etcusd_def ASK_def BID_def)
  note failed = get_reversed_order_fetch_failed [OF b facts(3), of 1000]
  note props = Order_reversed_props [OF b, of 1000 300]
  show ?thesis
    using failed props by (auto simp add: b facts)
qed

section \<open>Evaluation of the concrete venues\<close>

lemmas fixture_defs =
  ex_left_def ex_right_def ex_overdrawn_def ex_empty_def etcusd_def ask_left_def bid_right_def
  buy_order_def sell_order_def overdrawn_buy_def ex_far_def bid_far_def ask_empty_def
  ask_zero_def row_buy_def row_sell_def venues_def pair_new_def pair_old_def queue_db_def
  queue_gone_def queue_dangling_def

lemmas const_defs =
  ASK_def BID_def BUY_def SELL_def MARKET_def LIMIT_def CREATED_def PLACED_def REJECTED_def
  CANCELLED_def FULFILLED_def DEFAULT_PAIR_def

lemmas order_defs =
  Order_price_type_def Order_side_def Order_quote_def Order_base_def Order_pair_def
  Order_price_def Order_exchange_def Offer_pair_def to_common_format_def
  OFFER_ORDER_SIDES_MAP_def

lemmas upper_eval = upper_def upper_char_def char_of_def bit_Suc_0_iff

section \<open>Validation\<close>

lemma floor_with_precision_nonneg: "0 \<le> floor_with_precision v n \<longleftrightarrow> 0 \<le> v"
proof -
  define b :: real where "b = 10 ^ n"
  have pos: "0 < b" by (simp add: b_def)
  have "0 \<le> floor_with_precision v n \<longleftrightarrow> 0 \<le> (of_int \<lfloor>v * b\<rfloor> :: real) / b"
    by (simp add: floor_with_precision_def Let_def b_def)
  also have "\<dots> \<longleftrightarrow> 0 \<le> (of_int \<lfloor>v * b\<rfloor> :: real)"
    using pos by (auto simp add: zero_le_divide_iff)
  also have "\<dots> \<longleftrightarrow> 0 \<le> v * b" by (simp add: zero_le_floor)
  also have "\<dots> \<longleftrightarrow> 0 \<le> v" using pos by (auto simp add: zero_le_mult_iff)
  finally show ?thesis .
qed

lemma Order_str_ok:
  "Order_price_type ord = ASK \<or> Order_price_type ord = BID \<Longrightarrow>
   Order_exchange ord = Some e \<Longrightarrow> Order_str ord = Inr ()"
  by (auto simp add: Order_str_def Order_side_def OFFER_ORDER_SIDES_MAP_def)

text \<open>
  Claim C2, as the code has it. For an order with a side and a venue,
  \<open>Exchange.validate\<close> returns true if and only if the quote amount is at least the
  pair limit and both balances stay non-negative after the trade: for a buy the
  base-currency balance covers \<open>order.base.amount\<close> and the quote-currency balance
  plus \<open>order.quote.amount\<close> is not negative; for a sell the quote-currency balance
  covers \<open>order.quote.amount\<close> and the base-currency balance plus
  \<open>order.base.amount\<close> is not negative. With non-negative balances and amounts this
  is: the quote amount is at least the pair limit, and a buy is covered by the
  base-currency balance, a sell by the quote-currency balance.
\<close>

theorem validate_iff:
  assumes pt: "Order_price_type ord = ASK \<or> Order_price_type ord = BID"
    and ex: "Order_exchange ord = Some e"
  shows "validate v ord =
           Inr (get_pair_limit v (Order_pair ord) \<le> amount (Order_quote ord)
              \<and> (Order_side ord = Inr BUY \<longrightarrow>
                    amount (Order_base ord) \<le> get_balance v (currency (Order_base ord))
                  \<and> 0 \<le> get_balance v (currency (Order_quote ord))
                          + amount (Order_quote ord))
              \<and> (Order_side ord = Inr SELL \<longrightarrow>
                    amount (Order_quote ord) \<le> get_balance v (currency (Order_quote ord))
                  \<and> 0 \<le> get_balance v (currency (Order_base ord))
                          + amount (Order_base ord)))
       \<and> (0 \<le> get_balance v (currency (Order_quote ord))
            \<and> 0 \<le> get_balance v (currency (Order_base ord))
            \<and> 0 \<le> amount (Order_quote ord) \<and> 0 \<le> amount (Order_base ord) \<longrightarrow>
          validate v ord =
           Inr (get_pair_limit v (Order_pair ord) \<le> amount (Order_quote ord)
              \<and> (Order_side ord = Inr BUY \<longrightarrow>
                    amount (Order_base ord) \<le> get_balance v (currency (Order_base ord)))
              \<and> (Order_side ord = Inr SELL \<longrightarrow>
                    amount (Order_quote ord) \<le> get_balance v (currency (Order_quote ord)))))"
proof -
  have ne: "BUY \<noteq> SELL" "ASK \<noteq> BID" by (simp_all add: BUY_def SELL_def ASK_def BID_def)
  note str = Order_str_ok [OF pt ex]
  from pt show ?thesis
  proof
    assume a: "Order_price_type ord = ASK"
    then have side: "Order_side ord = Inr BUY"
      by (simp add: Order_side_def OFFER_ORDER_SIDES_MAP_def)
    show ?thesis
      using ne by (auto simp add: validate_def Let_def side str get_factor_def
          floor_with_precision_nonneg)
  next
    assume b: "Order_price_type ord = BID"
    then have side: "Order_side ord = Inr SELL"
      using ne by (simp add: Order_side_def OFFER_ORDER_SIDES_MAP_def)
    show ?thesis
      using ne by (auto simp add: validate_def Let_def side str get_factor_def
          floor_with_precision_nonneg)
  qed
qed

theorem validate_iff_witness:
  "Order_price_type buy_order = ASK \<and> Order_exchange buy_order = Some ex_left
   \<and> Order_side buy_order = Inr BUY
   \<and> 0 \<le> get_balance ex_left (currency (Order_quote buy_order))
   \<and> 0 \<le> get_balance ex_left (currency (Order_base buy_order))
   \<and> 0 \<le> amount (Order_quote buy_order) \<and> 0 \<le> amount (Order_base buy_order)
   \<and> validate ex_left buy_order = Inr True
   \<and> Order_price_type sell_order = BID \<and> Order_exchange sell_order = Some ex_right
   \<and> Order_side sell_order = Inr SELL
   \<and> validate ex_right sell_order = Inr False"
  using validate_iff [of buy_order ex_left ex_left] validate_iff [of sell_order ex_right ex_right]
  by (simp add: get_pair_limit_def get_balance_def order_defs fixture_defs const_defs
      upper_eval)

text \<open>
  On a venue whose ETC balance is negative, a buy of 2 ETC for 600 USD is refused
  although the quote amount is above the pair limit and the USD balance covers the
  600 USD: the ETC balance after the trade is still negative.
\<close>

theorem validate_iff_counterexample:
  "validate ex_overdrawn overdrawn_buy = Inr False
   \<and> get_pair_limit ex_overdrawn (Order_pair overdrawn_buy)
         \<le> amount (Order_quote overdrawn_buy)
   \<and> Order_side overdrawn_buy = Inr BUY
   \<and> amount (Order_base overdrawn_buy)
         \<le> get_balance ex_overdrawn (currency (Order_base overdrawn_buy))"
  by (simp add: validate_def Order_str_def get_factor_def get_pair_limit_def get_balance_def
      floor_with_precision_def Let_def order_defs fixture_defs const_defs upper_eval)

section \<open>Placement\<close>

text \<open>
  Claim C1, as the code has it. For an order whose status is \<open>placed\<close>,
  \<open>Exchange.place\<close> does not call the session (the session state is unchanged and the
  result does not depend on the session) and returns a result with \<open>success = false\<close>:
  with the order's \<open>id_on_exchange\<close> and the status \<open>placed\<close> when the order is
  valid, with an empty id when it is not; an exception of the validation is passed on.
\<close>

theorem place_already_placed:
  assumes "status ord = PLACED"
  shows "place session_place ex ord s =
           (case validate ex ord of
              Inl e \<Rightarrow> Inl e
            | Inr valid \<Rightarrow>
                Inr \<lparr>success = False,
                     order_id = (if valid then id_on_exchange ord else Some []),
                     order_status = PLACED, response = []\<rparr>,
            s)"
proof -
  have "\<not> is_closed ord"
    using assms by (simp add: is_closed_def const_defs)
  then show ?thesis
    using assms by (simp add: place_def split: sum.splits)
qed

theorem place_already_placed_witness:
  "status buy_order = PLACED
   \<and> validate ex_left buy_order = Inr True
   \<and> place accepting_session ex_left buy_order 0 =
       (Inr \<lparr>success = False, order_id = Some ''42'', order_status = PLACED,
             response = []\<rparr>, 0)"
  using place_already_placed [of buy_order accepting_session ex_left 0]
  by (simp add: validate_def Order_str_def get_factor_def get_pair_limit_def get_balance_def
      floor_with_precision_def Let_def order_defs fixture_defs const_defs upper_eval)

text \<open>
  A valid order that is already placed, on a session that would accept it: the result
  carries the order's id, but its \<open>success\<close> is false.
\<close>

theorem place_already_placed_counterexample:
  "status buy_order = PLACED
   \<and> \<not> is_closed buy_order
   \<and> validate ex_left buy_order = Inr True
   \<and> id_on_exchange buy_order = Some ''42''
   \<and> place accepting_session ex_left buy_order 0 =
       (Inr \<lparr>success = False, order_id = Some ''42'', order_status = ''placed'',
             response = []\<rparr>, 0)"
  by (simp add: place_def is_closed_def validate_def Order_str_def get_factor_def
      get_pair_limit_def get_balance_def floor_with_precision_def Let_def order_defs
      fixture_defs const_defs upper_eval)

section \<open>The forced-reversal deadline\<close>

lemma all_executed_before_total:
  "list_all (\<lambda>ord. executed_at ord \<noteq> None) ords \<Longrightarrow>
     all_executed_before limit_t ords =
       Inr (list_all (\<lambda>ord. case executed_at ord of
                              None \<Rightarrow> False | Some t \<Rightarrow> t < limit_t) ords)"
proof (induction ords)
  case Nil
  then show ?case by simp
next
  case (Cons ord ords)
  then obtain t where t: "executed_at ord = Some t" by auto
  show ?case
  proof (cases "t < limit_t")
    case True
    with Cons t show ?thesis by simp
  next
    case False
    with t show ?thesis by simp
  qed
qed

text \<open>
  Claim C10, as the code has it. When every order has an \<open>executed_at\<close>,
  \<open>are_orders_expired\<close> returns true if and only if each of them is strictly earlier
  than \<open>now - autoreverse_order_delta\<close>. For a pair with a missing \<open>executed_at\<close>
  the comparison raises \<open>TypeError\<close> when the missing one is the first leg, or the
  second leg after an expired first leg; after a first leg that is not expired the
  result is false and the second leg is not looked at.
\<close>

theorem are_orders_expired_spec:
  "(list_all (\<lambda>ord. executed_at ord \<noteq> None) ords \<longrightarrow>
      are_orders_expired now delta ords =
        Inr (list_all (\<lambda>ord. case executed_at ord of
                               None \<Rightarrow> False | Some t \<Rightarrow> t < now - delta) ords))
   \<and> (executed_at buy = None \<longrightarrow>
        are_orders_expired now delta [buy, sell] = Inl TypeError)
   \<and> (\<forall>t. executed_at buy = Some t \<and> t < now - delta \<and> executed_at sell = None \<longrightarrow>
        are_orders_expired now delta [buy, sell] = Inl TypeError)
   \<and> (\<forall>t. executed_at buy = Some t \<and> \<not> t < now - delta \<longrightarrow>
        are_orders_expired now delta [buy, sell] = Inr False)"
  by (simp add: are_orders_expired_def Let_def all_executed_before_total)

theorem are_orders_expired_spec_witness:
  "list_all (\<lambda>ord. executed_at ord \<noteq> None) [buy_order, buy_order]
   \<and> are_orders_expired 1000 10 [buy_order, buy_order] = Inr True
   \<and> are_orders_expired 1000 100 [buy_order, buy_order] = Inr False
   \<and> executed_at sell_order = None
   \<and> are_orders_expired 1000 10 [sell_order, buy_order] = Inl TypeError
   \<and> executed_at buy_order = Some 950 \<and> (950::int) < 1000 - 10
   \<and> are_orders_expired 1000 10 [buy_order, sell_order] = Inl TypeError
   \<and> \<not> (950::int) < 1000 - 100
   \<and> are_orders_expired 1000 100 [buy_order, sell_order] = Inr False"
  using are_orders_expired_spec [of "[buy_order, buy_order]" 1000 10 sell_order buy_order]
    are_orders_expired_spec [of "[buy_order, buy_order]" 1000 100 buy_order sell_order]
    are_orders_expired_spec [of "[buy_order, buy_order]" 1000 10 buy_order sell_order]
  by (simp add: buy_order_def sell_order_def)

text \<open>
  The sell leg has no \<open>executed_at\<close>, the buy leg is not yet expired: the result is
  false, not an error.
\<close>

theorem are_orders_expired_counterexample:
  "executed_at sell_order = None
   \<and> are_orders_expired 1000 100 [buy_order, sell_order] = Inr False"
  by (simp add: are_orders_expired_def buy_order_def sell_order_def)

section \<open>Sizing\<close>

lemma ASK_neq_BID: "ASK \<noteq> BID" "BID \<noteq> ASK"
  by (simp_all add: ASK_def BID_def)

lemma exchange_limit_pair:
  "exchange a = Some ea \<Longrightarrow> exchange b = Some eb \<Longrightarrow>
     exchange_limit [a, b] =
       Inr (min (if get_limit ea \<noteq> 0 then get_limit ea else MAX_SUM)
                (if get_limit eb \<noteq> 0 then get_limit eb else MAX_SUM))"
  by (simp add: exchange_limit_def)

lemma get_max_offer_and_balance_ask:
  assumes "price_type a = ASK" and "price_type b = BID" and "exchange a = Some ea"
  shows "get_max_offer_and_balance [a, b] ASK =
           (if min (get_balance ea (currency (base a))) (amount (base a)) < MAX_SUM
            then Inr (min (get_balance ea (currency (base a))) (amount (base a)), price a, a)
            else Inl AssertionError)"
  using assms ASK_neq_BID by (simp add: get_max_offer_and_balance_def Let_def)

lemma get_max_offer_and_balance_bid:
  assumes "price_type a = ASK" and "price_type b = BID" and "exchange b = Some eb"
  shows "get_max_offer_and_balance [a, b] BID =
           (if min (get_balance eb (currency (quote b))) (amount (quote b)) < MAX_SUM
            then Inr (min (get_balance eb (currency (quote b))) (amount (quote b)), price b, b)
            else Inl AssertionError)"
  using assms ASK_neq_BID by (simp add: get_max_offer_and_balance_def Let_def)


lemma get_max_spend_pair_cases:
  assumes pa: "price_type a = ASK" and pb: "price_type b = BID"
    and ea: "exchange a = Some ea" and eb: "exchange b = Some eb"
  shows "get_max_spend [a, b] p =
     (let max_base_sum = min (get_balance ea (currency (base a))) (amount (base a));
          max_quote_sum = min (get_balance eb (currency (quote b))) (amount (quote b));
          max_quote_sum' = min max_quote_sum (max_base_sum / price a);
          max_base_sum' = min max_base_sum (max_quote_sum' * price a)
      in if \<not> (currency (base b) = currency (base a) \<and>
                 currency (quote b) = currency (quote a)) then Inl AssertionError
         else if \<not> max_base_sum < MAX_SUM then Inl AssertionError
         else if \<not> max_quote_sum < MAX_SUM then Inl AssertionError
         else if price a = 0 then Inl ZeroDivisionError
         else Inr (\<lparr>amount = max_base_sum' * (1 - 2 * fee ea) * p,
                     currency = currency (base a)\<rparr>,
                   \<lparr>amount = min (max_quote_sum' * (1 - 2 * fee eb) * p)
                                (min (if get_limit ea \<noteq> 0 then get_limit ea else MAX_SUM)
                                     (if get_limit eb \<noteq> 0 then get_limit eb else MAX_SUM)),
                     currency = currency (quote a)\<rparr>))"
  unfolding get_max_spend_def
  by (simp add: Let_def exchange_limit_pair [OF ea eb]
      get_max_offer_and_balance_ask [OF pa pb ea] get_max_offer_and_balance_bid [OF pa pb eb]
      ea eb del: min_less_iff_conj)

lemma ask_empty_built: "Offer_init ASK ''ETCUSD'' 300 2 (Some ex_empty) 0 = Inr ask_empty"
  by (simp add: Offer_init_def PairName_init_def to_common_format_def py_round_def
      round_half_even_def Let_def fixture_defs const_defs upper_eval)


text \<open>
  Claim C3, as the code has it. Let \<open>a\<close> be an ask offer and \<open>b\<close> a bid offer, each
  on a venue, for which \<open>get_max_spend(a, b)\<close> returns at \<open>max_spend_part = 1\<close>. Then
  it returns at every part \<open>p\<close>, with the same currencies; the base amount is \<open>p\<close>
  times the base amount at part 1; the quote amount is \<open>min(p * q, cap)\<close>, where
  \<open>q = min(max_quote_sum, max_base_sum / a.price) * (1 - 2 * fee)\<close> is the quote sum of
  the code before scaling and capping (\<open>max_base_sum\<close> the smaller of the ask venue's
  base-currency balance and \<open>a.base.amount\<close>, \<open>max_quote_sum\<close> the smaller of the bid
  venue's quote-currency balance and \<open>b.quote.amount\<close>, \<open>fee\<close> the bid venue's) and
  \<open>cap\<close> the smaller global limit of the two venues (zero standing for \<open>MAX_SUM\<close>).
  At part 1 the quote amount is \<open>min(q, cap)\<close>; so the quote amount at part \<open>p\<close> is
  \<open>p\<close> times the one at part 1 when \<open>p\<close> is in (0,1] and \<open>0 \<le> q \<le> cap\<close>, that is,
  when the cap does not cut the sum at part 1.
\<close>

theorem get_max_spend_scaling:
  assumes pa: "price_type a = ASK" and pb: "price_type b = BID"
    and ea: "exchange a = Some ea" and eb: "exchange b = Some eb"
    and one: "get_max_spend [a, b] 1 = Inr (mb1, mq1)"
  shows "let max_base_sum = min (get_balance ea (currency (base a))) (amount (base a));
             max_quote_sum = min (get_balance eb (currency (quote b))) (amount (quote b));
             q = min max_quote_sum (max_base_sum / price a) * (1 - 2 * fee eb);
             cap = min (if get_limit ea \<noteq> 0 then get_limit ea else MAX_SUM)
                       (if get_limit eb \<noteq> 0 then get_limit eb else MAX_SUM)
         in exchange_limit [a, b] = Inr cap
          \<and> amount mq1 = min q cap
          \<and> get_max_spend [a, b] p =
              Inr (\<lparr>amount = p * amount mb1, currency = currency mb1\<rparr>,
                   \<lparr>amount = min (p * q) cap, currency = currency mq1\<rparr>)
          \<and> (0 < p \<and> p \<le> 1 \<and> 0 \<le> q \<and> q \<le> cap \<longrightarrow>
               get_max_spend [a, b] p =
                 Inr (\<lparr>amount = p * amount mb1, currency = currency mb1\<rparr>,
                      \<lparr>amount = p * amount mq1, currency = currency mq1\<rparr>))"
proof -
  define A where "A = min (get_balance ea (currency (base a))) (amount (base a))"
  define B where "B = min (get_balance eb (currency (quote b))) (amount (quote b))"
  define q where "q = min B (A / price a) * (1 - 2 * fee eb)"
  define cap where "cap = min (if get_limit ea \<noteq> 0 then get_limit ea else MAX_SUM)
                              (if get_limit eb \<noteq> 0 then get_limit eb else MAX_SUM)"
  define mb where "mb = min A (min B (A / price a) * price a) * (1 - 2 * fee ea)"
  note cases = get_max_spend_pair_cases [OF pa pb ea eb, folded A_def B_def,
      unfolded Let_def, folded q_def cap_def mb_def]
  have ok: "currency (base b) = currency (base a) \<and> currency (quote b) = currency (quote a)"
    "A < MAX_SUM" "B < MAX_SUM" "price a \<noteq> 0"
    using one unfolding cases [of 1] by (auto split: if_splits)
  have at: "get_max_spend [a, b] r =
              Inr (\<lparr>amount = mb * r, currency = currency (base a)\<rparr>,
                   \<lparr>amount = min (q * r) cap, currency = currency (quote a)\<rparr>)" for r
    unfolding cases [of r] using ok by simp
  from one at [of 1] have mb1: "mb1 = \<lparr>amount = mb, currency = currency (base a)\<rparr>"
    and mq1: "mq1 = \<lparr>amount = min q cap, currency = currency (quote a)\<rparr>"
    by simp_all
  have lin: "min (p * q) cap = p * min q cap"
    if "0 < p" "p \<le> 1" "0 \<le> q" "q \<le> cap"
  proof -
    have "p * q \<le> 1 * q" using that by (intro mult_right_mono) simp_all
    with that show ?thesis by simp
  qed
  have "exchange_limit [a, b] = Inr cap"
    by (simp add: exchange_limit_pair [OF ea eb] cap_def)
  moreover have "amount mq1 = min q cap" by (simp add: mq1)
  moreover have "get_max_spend [a, b] p =
              Inr (\<lparr>amount = p * amount mb1, currency = currency mb1\<rparr>,
                   \<lparr>amount = min (p * q) cap, currency = currency mq1\<rparr>)"
    by (simp add: at [of p] mb1 mq1 mult.commute)
  moreover have "get_max_spend [a, b] p =
                 Inr (\<lparr>amount = p * amount mb1, currency = currency mb1\<rparr>,
                      \<lparr>amount = p * amount mq1, currency = currency mq1\<rparr>)"
    if "0 < p \<and> p \<le> 1 \<and> 0 \<le> q \<and> q \<le> cap"
    using that lin by (simp add: at [of p] mb1 mq1 mult.commute)
  ultimately show ?thesis
    unfolding Let_def A_def [symmetric] B_def [symmetric] q_def [symmetric]
      cap_def [symmetric]
    by blast
qed

theorem get_max_spend_scaling_witness:
  "price_type ask_left = ASK \<and> price_type bid_far = BID
   \<and> exchange ask_left = Some ex_left \<and> exchange bid_far = Some ex_far
   \<and> get_max_spend [ask_left, bid_far] 1
     = Inr (\<lparr>amount = 294, currency = ''USD''\<rparr>, \<lparr>amount = 49 / 50, currency = ''ETC''\<rparr>)
   \<and> exchange_limit [ask_left, bid_far] = Inr MAX_SUM
   \<and> (0 :: real) < 1 / 2 \<and> (1 / 2 :: real) \<le> 1 \<and> (0 :: real) \<le> 49 / 50
   \<and> 49 / 50 \<le> MAX_SUM
   \<and> get_max_spend [ask_left, bid_far] (1 / 2)
     = Inr (\<lparr>amount = 147, currency = ''USD''\<rparr>, \<lparr>amount = 49 / 100, currency = ''ETC''\<rparr>)"
proof -
  have types: "price_type ask_left = ASK" "price_type bid_far = BID"
    "exchange ask_left = Some ex_left" "exchange bid_far = Some ex_far"
    by (simp_all add: fixture_defs)
  have one: "get_max_spend [ask_left, bid_far] 1
     = Inr (\<lparr>amount = 294, currency = ''USD''\<rparr>, \<lparr>amount = 49 / 50, currency = ''ETC''\<rparr>)"
    by (simp add: get_max_spend_def exchange_limit_def get_max_offer_and_balance_def
        get_balance_def get_limit_def MAX_SUM_def Let_def fixture_defs const_defs upper_eval)
  have vals: "get_balance ex_left (currency (base ask_left)) = 1000"
    "amount (base ask_left) = 600" "price ask_left = 300"
    "get_balance ex_far (currency (quote bid_far)) = 1" "amount (quote bid_far) = 2"
    "fee ex_far = 1 / 100" "get_limit ex_left = 0" "get_limit ex_far = 0"
    by (simp_all add: get_balance_def get_limit_def fixture_defs upper_eval)
  note t = get_max_spend_scaling [OF types one, of "1 / 2"]
  from t have "exchange_limit [ask_left, bid_far] = Inr MAX_SUM
     \<and> get_max_spend [ask_left, bid_far] (1 / 2)
       = Inr (\<lparr>amount = 147, currency = ''USD''\<rparr>, \<lparr>amount = 49 / 100, currency = ''ETC''\<rparr>)"
    by (simp add: Let_def vals MAX_SUM_def)
  with types one show ?thesis
    by (simp add: MAX_SUM_def)
qed

text \<open>
  The venue \<open>right\<close> has the global limit 1/2: at part 1 the quote sum 0.98 is cut to
  0.5, at part 1/2 the sum 0.49 is below the limit, and 0.49 is not half of 0.5.
\<close>

theorem get_max_spend_scaling_counterexample:
  "get_max_spend [ask_left, bid_right] 1
     = Inr (\<lparr>amount = 294, currency = ''USD''\<rparr>, \<lparr>amount = 1 / 2, currency = ''ETC''\<rparr>)
   \<and> get_max_spend [ask_left, bid_right] (1 / 2)
     = Inr (\<lparr>amount = 147, currency = ''USD''\<rparr>, \<lparr>amount = 49 / 100, currency = ''ETC''\<rparr>)
   \<and> (49 / 100 :: real) \<noteq> 1 / 2 * (1 / 2)"
  by (simp add: get_max_spend_def exchange_limit_def get_max_offer_and_balance_def
      get_balance_def get_limit_def MAX_SUM_def Let_def fixture_defs const_defs upper_eval)




section \<open>The reversal queue\<close>

lemma sort_key_hd_min:
  assumes "xs \<noteq> []"
  shows "hd (sort_key f xs) \<in> set xs \<and> (\<forall>x\<in>set xs. f (hd (sort_key f xs)) \<le> f x)"
proof -
  define ys where "ys = sort_key f xs"
  have set: "set ys = set xs" and srt: "sorted (map f ys)"
    by (simp_all add: ys_def)
  from assms set have "ys \<noteq> []" by auto
  then obtain y ys' where ys: "ys = y # ys'" by (cases ys) auto
  from srt ys have "\<forall>z\<in>set ys'. f y \<le> f z" by simp
  with set ys show ?thesis
    unfolding ys_def [symmetric] by auto
qed

lemma select_oldest_eq:
  "rows \<noteq> [] \<Longrightarrow> select_oldest rows = [op_uuid (hd (sort_key op_time rows))]"
proof -
  assume "rows \<noteq> []"
  then have "set (sort_key op_time rows) \<noteq> {}" by simp
  then have "sort_key op_time rows \<noteq> []" by (simp del: set_sort)
  then show ?thesis
    by (cases "sort_key op_time rows") (simp_all add: select_oldest_def)
qed

lemma filter_key_remove1:
  "distinct (map f xs) \<Longrightarrow> x \<in> set xs \<Longrightarrow> filter (\<lambda>r. f r \<noteq> f x) xs = remove1 x xs"
proof (induction xs)
  case Nil
  then show ?case by simp
next
  case (Cons a xs)
  show ?case
  proof (cases "a = x")
    case True
    with Cons.prems have "\<forall>r\<in>set xs. f r \<noteq> f x" by (fastforce simp add: image_iff)
    then have "filter (\<lambda>r. f r \<noteq> f x) xs = xs" by (simp add: filter_id_conv)
    with True show ?thesis by simp
  next
    case False
    with Cons.prems have "x \<in> set xs" and "f a \<noteq> f x" by auto
    with Cons show ?thesis using False by simp
  qed
qed

lemma filter_key_single:
  "distinct (map f xs) \<Longrightarrow> x \<in> set xs \<Longrightarrow> filter (\<lambda>r. f r = f x) xs = [x]"
proof (induction xs)
  case Nil
  then show ?case by simp
next
  case (Cons a xs)
  show ?case
  proof (cases "a = x")
    case True
    with Cons.prems have "\<forall>r\<in>set xs. f r \<noteq> f x" by (fastforce simp add: image_iff)
    then have "filter (\<lambda>r. f r = f x) xs = []" by (simp add: filter_empty_conv)
    with True show ?thesis by simp
  next
    case False
    with Cons.prems have "x \<in> set xs" and "f a \<noteq> f x" by auto
    with Cons show ?thesis by simp
  qed
qed

lemma join_single:
  "concat (map (\<lambda>d. map (\<lambda>r. d) (filter (P d) [row])) ds) = filter (\<lambda>d. P d row) ds"
  by (induction ds) simp_all

lemma two_elements:
  assumes "distinct zs" and "set zs = {x, y}" and "x \<noteq> y"
  shows "zs = [x, y] \<or> zs = [y, x]"
proof -
  have "length zs = card (set zs)" using assms(1) by (simp add: distinct_card)
  also have "\<dots> = 2" using assms(2,3) by simp
  finally obtain a b where zs: "zs = [a, b]"
    by (auto simp add: length_Suc_conv numeral_2_eq_2)
  with assms show ?thesis by auto
qed

lemma concat_map_Nil: "concat (map (\<lambda>d. []) ds) = []"
  by (induction ds) simp_all

lemma pop_query_empty: "order_pairs db = [] \<Longrightarrow> pop_query db = ([], db)"
  by (simp add: pop_query_def select_oldest_def Let_def concat_map_Nil)

lemma pop_query_nonempty:
  assumes ne: "order_pairs db \<noteq> []" and key: "distinct (map op_uuid (order_pairs db))"
  shows "pop_query db =
           (sort_key row_type
              (filter (\<lambda>d. row_uuid d = left_order_uuid (hd (sort_key op_time (order_pairs db)))
                        \<or> row_uuid d = right_order_uuid (hd (sort_key op_time (order_pairs db))))
                 (orders db)),
            db\<lparr>order_pairs := remove1 (hd (sort_key op_time (order_pairs db))) (order_pairs db)\<rparr>)"
proof -
  define row where "row = hd (sort_key op_time (order_pairs db))"
  have row: "row \<in> set (order_pairs db)"
    using sort_key_hd_min [OF ne, of op_time] by (simp add: row_def)
  have ids: "select_oldest (order_pairs db) = [op_uuid row]"
    by (simp add: select_oldest_eq [OF ne] row_def)
  have del: "filter (\<lambda>r. op_uuid r \<in> set [op_uuid row]) (order_pairs db) = [row]"
    using filter_key_single [OF key row] by simp
  have rem: "filter (\<lambda>r. op_uuid r \<notin> set [op_uuid row]) (order_pairs db)
               = remove1 row (order_pairs db)"
    using filter_key_remove1 [OF key row] by simp
  show ?thesis
    unfolding pop_query_def Let_def ids del rem join_single row_def [symmetric] ..
qed

lemma get_order_Inr:
  assumes "get_order now exchanges_map d = Inr ord"
  shows "uuid ord = Some (row_uuid d)"
    and "row_side d = BUY \<Longrightarrow> Order_side ord = Inr BUY"
    and "row_side d = SELL \<Longrightarrow> Order_side ord = Inr SELL"
proof -
  from assms obtain ex pt f where
    pt: "ORDER_OFFER_SIDES_MAP (row_side d) = Inr pt"
    and f: "Offer_init pt (row_pair d) (row_price d) (row_quote d) (Some ex) 0 = Inr f"
    and ord: "Order_init now f (row_status d) [] LIMIT (row_created_at d) (row_expired_at d)
                (row_executed_at d) 0 (row_id_on_exchange d) (Some (row_uuid d)) = Inr ord"
    by (auto simp add: get_order_def from_data_def split: sum.splits)
  from ord have o: "uuid ord = Some (row_uuid d)" "offer ord = f"
    by (auto simp add: Order_init_def split: if_splits)
  from Offer_init_Inr [OF f] have ptf: "price_type f = pt" by simp
  show "uuid ord = Some (row_uuid d)" by (rule o)
  show "Order_side ord = Inr BUY" if "row_side d = BUY"
    using that pt by (simp add: Order_side_def Order_price_type_def o ptf
        ORDER_OFFER_SIDES_MAP_def OFFER_ORDER_SIDES_MAP_def split: if_splits)
  show "Order_side ord = Inr SELL" if "row_side d = SELL"
    using that pt by (auto simp add: Order_side_def Order_price_type_def o ptf
        ORDER_OFFER_SIDES_MAP_def OFFER_ORDER_SIDES_MAP_def const_defs split: if_splits)
qed

lemma pop_pair:
  assumes q: "pop_query db = (fetched, db')"
    and two: "fetched = [x, y] \<or> fetched = [y, x]"
    and sides: "row_side x = BUY" "row_side y \<noteq> BUY"
    and built: "get_order now exchanges_map x = Inr bo" "get_order now exchanges_map y = Inr so"
  shows "pop now exchanges_map db = (Inr (bo, so), db')"
  using two
proof
  assume "fetched = [x, y]"
  then show ?thesis
    using q sides built by (simp add: pop_def)
next
  assume "fetched = [y, x]"
  then show ?thesis
    using q sides built by (simp add: pop_def)
qed

text \<open>
  Claim C4, as the code has it. On an empty \<open>order_pairs\<close> table \<open>pop\<close> raises
  \<open>QueueEmpty\<close> and changes nothing. On a non-empty table (its \<open>uuid\<close> a key)
  \<open>pop\<close> deletes exactly one row, one with the smallest \<open>time\<close>, whatever it
  returns. If the two orders that the row references are both in \<open>orders\<close> (its
  \<open>uuid\<close> a key), are different, one of them is a buy and the other is not, and both
  can be rebuilt on their venues, \<open>pop\<close> returns them with the buy first, whichever of
  the two the row has as left.
\<close>

theorem pop_spec:
  "(order_pairs db = [] \<longrightarrow> pop now exchanges_map db = (Inl QueueEmpty, db))
   \<and> (order_pairs db \<noteq> [] \<and> distinct (map op_uuid (order_pairs db)) \<longrightarrow>
        (\<exists>row\<in>set (order_pairs db).
           (\<forall>r\<in>set (order_pairs db). op_time row \<le> op_time r)
         \<and> snd (pop now exchanges_map db)
             = db\<lparr>order_pairs := remove1 row (order_pairs db)\<rparr>
         \<and> (\<forall>x y bo so.
               distinct (map row_uuid (orders db))
             \<and> x \<in> set (orders db) \<and> y \<in> set (orders db)
             \<and> {row_uuid x, row_uuid y} = {left_order_uuid row, right_order_uuid row}
             \<and> row_uuid x \<noteq> row_uuid y
             \<and> row_side x = BUY \<and> row_side y \<noteq> BUY
             \<and> get_order now exchanges_map x = Inr bo
             \<and> get_order now exchanges_map y = Inr so
             \<longrightarrow> fst (pop now exchanges_map db) = Inr (bo, so)
               \<and> uuid bo = Some (row_uuid x) \<and> uuid so = Some (row_uuid y)
               \<and> Order_side bo = Inr BUY)))"
proof (intro conjI impI)
  assume "order_pairs db = []"
  then show "pop now exchanges_map db = (Inl QueueEmpty, db)"
    by (simp add: pop_def pop_query_empty)
next
  assume "order_pairs db \<noteq> [] \<and> distinct (map op_uuid (order_pairs db))"
  then have ne: "order_pairs db \<noteq> []" and key: "distinct (map op_uuid (order_pairs db))"
    by simp_all
  define row where "row = hd (sort_key op_time (order_pairs db))"
  define db' where "db' = db\<lparr>order_pairs := remove1 row (order_pairs db)\<rparr>"
  define fetched where "fetched = sort_key row_type
      (filter (\<lambda>d. row_uuid d = left_order_uuid row \<or> row_uuid d = right_order_uuid row)
         (orders db))"
  have q: "pop_query db = (fetched, db')"
    unfolding fetched_def db'_def row_def by (rule pop_query_nonempty [OF ne key])
  have row: "row \<in> set (order_pairs db)" "\<forall>r\<in>set (order_pairs db). op_time row \<le> op_time r"
    using sort_key_hd_min [OF ne, of op_time] by (simp_all add: row_def)
  have snd: "snd (pop now exchanges_map db) = db'"
    by (simp add: pop_def q Let_def split: list.splits sum.splits prod.splits)
  have res: "fst (pop now exchanges_map db) = Inr (bo, so)
           \<and> uuid bo = Some (row_uuid x) \<and> uuid so = Some (row_uuid y)
           \<and> Order_side bo = Inr BUY"
    if h: "distinct (map row_uuid (orders db))
             \<and> x \<in> set (orders db) \<and> y \<in> set (orders db)
             \<and> {row_uuid x, row_uuid y} = {left_order_uuid row, right_order_uuid row}
             \<and> row_uuid x \<noteq> row_uuid y
             \<and> row_side x = BUY \<and> row_side y \<noteq> BUY
             \<and> get_order now exchanges_map x = Inr bo
             \<and> get_order now exchanges_map y = Inr so"
    for x y bo so
  proof -
    from h have okey: "distinct (map row_uuid (orders db))"
      and xy: "x \<in> set (orders db)" "y \<in> set (orders db)"
      and refs: "{row_uuid x, row_uuid y} = {left_order_uuid row, right_order_uuid row}"
      and neq: "row_uuid x \<noteq> row_uuid y"
      and sides: "row_side x = BUY" "row_side y \<noteq> BUY"
      and built: "get_order now exchanges_map x = Inr bo"
        "get_order now exchanges_map y = Inr so"
      by simp_all
    have inj: "inj_on row_uuid (set (orders db))" and dist: "distinct (orders db)"
      using okey by (simp_all add: distinct_map)
    have "set fetched = {d \<in> set (orders db). row_uuid d \<in> {row_uuid x, row_uuid y}}"
      unfolding fetched_def refs by auto
    also have "\<dots> = {x, y}"
      using xy inj by (auto dest: inj_onD)
    finally have set: "set fetched = {x, y}" .
    have "distinct fetched"
      using dist by (simp add: fetched_def)
    from two_elements [OF this set] neq have "fetched = [x, y] \<or> fetched = [y, x]"
      by auto
    from pop_pair [OF q this sides built]
    have "fst (pop now exchanges_map db) = Inr (bo, so)" by simp
    with get_order_Inr [OF built(1)] get_order_Inr(1) [OF built(2)] sides
    show ?thesis by simp
  qed
  show "\<exists>row\<in>set (order_pairs db).
           (\<forall>r\<in>set (order_pairs db). op_time row \<le> op_time r)
         \<and> snd (pop now exchanges_map db)
             = db\<lparr>order_pairs := remove1 row (order_pairs db)\<rparr>
         \<and> (\<forall>x y bo so.
               distinct (map row_uuid (orders db))
             \<and> x \<in> set (orders db) \<and> y \<in> set (orders db)
             \<and> {row_uuid x, row_uuid y} = {left_order_uuid row, right_order_uuid row}
             \<and> row_uuid x \<noteq> row_uuid y
             \<and> row_side x = BUY \<and> row_side y \<noteq> BUY
             \<and> get_order now exchanges_map x = Inr bo
             \<and> get_order now exchanges_map y = Inr so
             \<longrightarrow> fst (pop now exchanges_map db) = Inr (bo, so)
               \<and> uuid bo = Some (row_uuid x) \<and> uuid so = Some (row_uuid y)
               \<and> Order_side bo = Inr BUY)"
    using row snd res unfolding db'_def by blast
qed

lemma get_order_row_buy: "get_order 1000 venues row_buy = Inr buy_order"
  by (simp add: get_order_def Exchanges_get_def from_data_def ORDER_OFFER_SIDES_MAP_def
      Offer_init_def PairName_init_def to_common_format_def py_round_def round_half_even_def
      Order_init_def ORDER_TYPES_def Let_def fixture_defs const_defs upper_eval)

lemma get_order_row_sell: "get_order 1000 venues row_sell = Inr sell_order"
  by (simp add: get_order_def Exchanges_get_def from_data_def ORDER_OFFER_SIDES_MAP_def
      Offer_init_def PairName_init_def to_common_format_def py_round_def round_half_even_def
      Order_init_def ORDER_TYPES_def Let_def fixture_defs const_defs upper_eval)

lemma pop_query_queue_db:
  "pop_query queue_db = ([row_sell, row_buy], queue_db\<lparr>order_pairs := [pair_new]\<rparr>)"
  by (simp add: pop_query_def select_oldest_def Let_def queue_db_def pair_new_def pair_old_def
      row_buy_def row_sell_def)

lemma pop_queue_db:
  "pop 1000 venues queue_db =
     (Inr (buy_order, sell_order), queue_db\<lparr>order_pairs := [pair_new]\<rparr>)"
  by (simp add: pop_def pop_query_queue_db get_order_row_buy get_order_row_sell)
    (simp add: row_sell_def const_defs)

theorem pop_spec_witness:
  "pop 1000 venues \<lparr>order_pairs = [], orders = [row_buy]\<rparr>
     = (Inl QueueEmpty, \<lparr>order_pairs = [], orders = [row_buy]\<rparr>)
   \<and> push ''p1'' 10 (buy_order, sell_order)
         \<lparr>order_pairs = [pair_new], orders = [row_sell, row_buy]\<rparr> = queue_db
   \<and> order_pairs queue_db \<noteq> []
   \<and> distinct (map op_uuid (order_pairs queue_db))
   \<and> distinct (map row_uuid (orders queue_db))
   \<and> pair_old \<in> set (order_pairs queue_db)
   \<and> op_time pair_old \<le> op_time pair_new
   \<and> {row_uuid row_buy, row_uuid row_sell}
       = {left_order_uuid pair_old, right_order_uuid pair_old}
   \<and> row_side row_buy = BUY \<and> row_side row_sell \<noteq> BUY
   \<and> get_order 1000 venues row_buy = Inr buy_order
   \<and> get_order 1000 venues row_sell = Inr sell_order
   \<and> pop 1000 venues queue_db
     = (Inr (buy_order, sell_order), queue_db\<lparr>order_pairs := remove1 pair_old [pair_new, pair_old]\<rparr>)"
  using pop_spec [of "\<lparr>order_pairs = [], orders = [row_buy]\<rparr>" 1000 venues]
    pop_spec [of queue_db 1000 venues]
    pop_queue_db get_order_row_buy get_order_row_sell
  by (simp add: push_def str_of_uuid_def buy_order_def sell_order_def queue_db_def
      pair_new_def pair_old_def row_buy_def row_sell_def const_defs)

text \<open>
  The table is not empty, but \<open>pop\<close> returns no orders: the venue of the referenced
  sell order is not configured and \<open>Exchanges.get\<close> raises, or the referenced orders
  are not in \<open>orders\<close> and \<open>QueueEmpty\<close> is raised; the row is deleted all the same.
\<close>

theorem pop_spec_counterexample:
  "order_pairs queue_gone = [pair_old]
   \<and> pop 1000 venues queue_gone
       = (Inl (NoSuchExchangeError ''gone''), queue_gone\<lparr>order_pairs := []\<rparr>)
   \<and> order_pairs queue_dangling = [pair_old]
   \<and> pop 1000 venues queue_dangling
       = (Inl QueueEmpty, queue_dangling\<lparr>order_pairs := []\<rparr>)"
  using get_order_row_buy
  by (simp add: pop_def pop_query_def select_oldest_def get_order_def Exchanges_get_def Let_def
      queue_gone_def queue_dangling_def pair_old_def row_buy_def row_sell_def venues_def
      const_defs)

end
